theory Spec2Isabelle
  imports Main "HOL-Library.Multiset"
begin

section \<open>Translation contribution statistics: the combiner and the job around it\<close>

text \<open>
  A shallow embedding of \<^verbatim>\<open>core/jobs/batch_jobs/suggestion_stats_computation_jobs.py\<close>:
  the class \<^verbatim>\<open>CombineStats\<close> (an Apache Beam \<^verbatim>\<open>CombineFn\<close>) and the job
  \<^verbatim>\<open>GenerateTranslationContributionStatsJob\<close>. Python integers are \<open>int\<close>, Python
  strings are \<open>string\<close>, an exception is the \<open>Inl\<close> branch of a sum, a
  \<^verbatim>\<open>PCollection\<close> is a list.
\<close>

subsection \<open>Exceptions\<close>

datatype error = ValueError | IndexError

subsection \<open>Calendar dates and \<^verbatim>\<open>datetime.datetime.strptime(s, '%Y-%m-%d').date()\<close>\<close>

record date =
  year :: nat
  month :: nat
  day :: nat

text \<open>
  Python's \<^verbatim>\<open>str.split(sep)\<close> with a one-character separator: a string with \<open>n\<close>
  separators gives \<open>n + 1\<close> pieces, empty pieces included.
\<close>

fun split_on :: "char \<Rightarrow> string \<Rightarrow> string list" where
  "split_on sep [] = [[]]"
| "split_on sep (c # cs) =
     (if c = sep then [] # split_on sep cs
      else (case split_on sep cs of
              [] \<Rightarrow> [[c]]
            | w # ws \<Rightarrow> (c # w) # ws))"

definition is_digit :: "char \<Rightarrow> bool" where
  "is_digit c = (c \<in> set ''0123456789'')"

definition is_nonzero_digit :: "char \<Rightarrow> bool" where
  "is_nonzero_digit c = (c \<in> set ''123456789'')"

definition digit_val :: "char \<Rightarrow> nat" where
  "digit_val c = (of_char c :: nat) - 48"

definition read_nat :: "string \<Rightarrow> nat" where
  "read_nat s = foldl (\<lambda>n c. 10 * n + digit_val c) 0 s"

text \<open>
  The directives of CPython's \<^verbatim>\<open>_strptime\<close> are regular expressions:
  \<^verbatim>\<open>%Y\<close> is \<^verbatim>\<open>\d\d\d\d\<close>, \<^verbatim>\<open>%m\<close> is \<^verbatim>\<open>1[0-2]|0[1-9]|[1-9]\<close> and
  \<^verbatim>\<open>%d\<close> is \<^verbatim>\<open>3[0-1]|[1-2]\d|0[1-9]|[1-9]| [1-9]\<close>; the whole string has to be
  consumed, and the date has to exist (year at least 1, day within the month).
  Characters are bytes here, so digits outside ASCII are not represented.
\<close>

definition year_token :: "string \<Rightarrow> bool" where
  "year_token s = (length s = 4 \<and> list_all is_digit s)"

definition month_token :: "string \<Rightarrow> bool" where
  "month_token s =
     (case s of
        [a] \<Rightarrow> is_nonzero_digit a
      | [a, b] \<Rightarrow> (a = CHR ''1'' \<and> b \<in> set ''012'') \<or> (a = CHR ''0'' \<and> is_nonzero_digit b)
      | _ \<Rightarrow> False)"

definition day_token :: "string \<Rightarrow> bool" where
  "day_token s =
     (case s of
        [a] \<Rightarrow> is_nonzero_digit a
      | [a, b] \<Rightarrow> (a = CHR ''3'' \<and> b \<in> set ''01'') \<or> (a \<in> set ''12'' \<and> is_digit b)
                 \<or> (a = CHR ''0'' \<and> is_nonzero_digit b) \<or> (a = CHR '' '' \<and> is_nonzero_digit b)
      | _ \<Rightarrow> False)"

definition is_leap :: "nat \<Rightarrow> bool" where
  "is_leap y = (y mod 4 = 0 \<and> (y mod 100 \<noteq> 0 \<or> y mod 400 = 0))"

definition days_in_month :: "nat \<Rightarrow> nat \<Rightarrow> nat" where
  "days_in_month y m =
     (if m = 2 then (if is_leap y then 29 else 28)
      else if m = 4 \<or> m = 6 \<or> m = 9 \<or> m = 11 then 30 else 31)"

definition strptime_date :: "string \<Rightarrow> error + date" where
  "strptime_date s =
     (case split_on (CHR ''-'') s of
        [y, m, d] \<Rightarrow>
          if year_token y \<and> month_token m \<and> day_token d then
            (let yr = read_nat y; mo = read_nat m;
                 dy = read_nat (filter (\<lambda>c. c \<noteq> CHR '' '') d)
             in if 1 \<le> yr \<and> dy \<le> days_in_month yr mo
                then Inr \<lparr>year = yr, month = mo, day = dy\<rparr>
                else Inl ValueError)
          else Inl ValueError
      | _ \<Rightarrow> Inl ValueError)"

subsection \<open>The domain object \<^verbatim>\<open>TranslationContributionStats\<close> and the event dictionary\<close>

text \<open>
  \<^verbatim>\<open>suggestion_registry.TranslationContributionStats\<close>: the constructor takes the eleven
  fields in this order. The three identifying fields are optional strings.
\<close>

record TranslationContributionStats =
  language_code :: "string option"
  contributor_user_id :: "string option"
  topic_id :: "string option"
  submitted_translations_count :: int
  submitted_translation_word_count :: int
  accepted_translations_count :: int
  accepted_translations_without_reviewer_edits_count :: int
  accepted_translation_word_count :: int
  rejected_translations_count :: int
  rejected_translation_word_count :: int
  contribution_dates :: "date set"

text \<open>
  The dictionary that \<^verbatim>\<open>_generate_stats\<close> yields and \<^verbatim>\<open>add_input\<close> reads: four
  fixed keys, so a record.
\<close>

record stat_event =
  suggestion_status :: string
  edited_by_reviewer :: bool
  content_word_count :: int
  last_updated_date :: string

text \<open>
  Modelled from the spec: the status constants \<^verbatim>\<open>suggestion_models.STATUS_ACCEPTED\<close> and
  \<^verbatim>\<open>suggestion_models.STATUS_REJECTED\<close> are declared outside the source at hand; the
  spec gives a status as one of \<^verbatim>\<open>ACCEPTED\<close>, \<^verbatim>\<open>REJECTED\<close> or other, two distinct
  values.
\<close>

definition STATUS_ACCEPTED :: string where
  "STATUS_ACCEPTED = ''accepted''"

definition STATUS_REJECTED :: string where
  "STATUS_REJECTED = ''rejected''"

text \<open>
  Modelled from the spec: \<^verbatim>\<open>TranslationContributionStats.create_default()\<close> is declared
  outside the source at hand; the spec's \<^verbatim>\<open>identity()\<close> is the zero-valued aggregate
  (all counts 0, empty date set) whose language, contributor and topic fields are not
  set yet.
\<close>

definition create_default :: TranslationContributionStats where
  "create_default =
     \<lparr>language_code = None, contributor_user_id = None, topic_id = None,
      submitted_translations_count = 0,
      submitted_translation_word_count = 0,
      accepted_translations_count = 0,
      accepted_translations_without_reviewer_edits_count = 0,
      accepted_translation_word_count = 0,
      rejected_translations_count = 0,
      rejected_translation_word_count = 0,
      contribution_dates = {}\<rparr>"

subsection \<open>\<^verbatim>\<open>CombineStats\<close>\<close>

definition create_accumulator :: TranslationContributionStats where
  "create_accumulator = create_default"

definition add_input ::
  "TranslationContributionStats \<Rightarrow> stat_event \<Rightarrow> error + TranslationContributionStats" where
  "add_input accumulator translation =
     (let is_accepted = (suggestion_status translation = STATUS_ACCEPTED);
          is_accepted_and_not_edited = (is_accepted \<and> \<not> edited_by_reviewer translation);
          is_rejected = (suggestion_status translation = STATUS_REJECTED);
          word_count = content_word_count translation
      in case strptime_date (last_updated_date translation) of
           Inl e \<Rightarrow> Inl e
         | Inr suggestion_date \<Rightarrow>
             Inr \<lparr>language_code = language_code accumulator,
                  contributor_user_id = contributor_user_id accumulator,
                  topic_id = topic_id accumulator,
                  submitted_translations_count =
                    submitted_translations_count accumulator + 1,
                  submitted_translation_word_count =
                    submitted_translation_word_count accumulator + word_count,
                  accepted_translations_count =
                    accepted_translations_count accumulator + of_bool is_accepted,
                  accepted_translations_without_reviewer_edits_count =
                    accepted_translations_without_reviewer_edits_count accumulator
                    + of_bool is_accepted_and_not_edited,
                  accepted_translation_word_count =
                    accepted_translation_word_count accumulator
                    + word_count * of_bool is_accepted,
                  rejected_translations_count =
                    rejected_translations_count accumulator + of_bool is_rejected,
                  rejected_translation_word_count =
                    rejected_translation_word_count accumulator
                    + word_count * of_bool is_rejected,
                  contribution_dates =
                    contribution_dates accumulator \<union> {suggestion_date}\<rparr>)"

text \<open>
  \<^verbatim>\<open>list(accumulators)[0]\<close> raises \<^verbatim>\<open>IndexError\<close> on an empty list; \<^verbatim>\<open>sum\<close>
  starts from 0 and \<^verbatim>\<open>set().union(*...)\<close> from the empty set.
\<close>

definition merge_accumulators ::
  "TranslationContributionStats list \<Rightarrow> error + TranslationContributionStats" where
  "merge_accumulators accumulators =
     (case accumulators of
        [] \<Rightarrow> Inl IndexError
      | first # _ \<Rightarrow>
          Inr \<lparr>language_code = language_code first,
               contributor_user_id = contributor_user_id first,
               topic_id = topic_id first,
               submitted_translations_count =
                 sum_list (map submitted_translations_count accumulators),
               submitted_translation_word_count =
                 sum_list (map submitted_translation_word_count accumulators),
               accepted_translations_count =
                 sum_list (map accepted_translations_count accumulators),
               accepted_translations_without_reviewer_edits_count =
                 sum_list (map accepted_translations_without_reviewer_edits_count accumulators),
               accepted_translation_word_count =
                 sum_list (map accepted_translation_word_count accumulators),
               rejected_translations_count =
                 sum_list (map rejected_translations_count accumulators),
               rejected_translation_word_count =
                 sum_list (map rejected_translation_word_count accumulators),
               contribution_dates =
                 \<Union> (set (map contribution_dates accumulators))\<rparr>)"

definition extract_output :: "TranslationContributionStats \<Rightarrow> TranslationContributionStats" where
  "extract_output accumulator = accumulator"

subsection \<open>What \<^verbatim>\<open>CombinePerKey\<close> does with a \<^verbatim>\<open>CombineFn\<close>\<close>

text \<open>
  Beam folds a bundle of a key's values into a fresh accumulator with \<^verbatim>\<open>add_input\<close>,
  one value after the other; an exception ends the fold.
\<close>

fun add_inputs ::
  "TranslationContributionStats \<Rightarrow> stat_event list \<Rightarrow> error + TranslationContributionStats" where
  "add_inputs accumulator [] = Inr accumulator"
| "add_inputs accumulator (translation # rest) =
     (case add_input accumulator translation of
        Inl e \<Rightarrow> Inl e
      | Inr accumulator' \<Rightarrow> add_inputs accumulator' rest)"

text \<open>A list of results is the list of the values, or the first exception.\<close>

fun first_error :: "(error + 'a) list \<Rightarrow> error + 'a list" where
  "first_error [] = Inr []"
| "first_error (r # rs) =
     (case r of
        Inl e \<Rightarrow> Inl e
      | Inr y \<Rightarrow> (case first_error rs of Inl e \<Rightarrow> Inl e | Inr ys \<Rightarrow> Inr (y # ys)))"

text \<open>
  A combining plan: a leaf folds one bundle of events into a fresh accumulator, a node
  merges the results of its sub-plans with \<^verbatim>\<open>merge_accumulators\<close>. Every way Beam may
  bundle a key's values and merge the partial accumulators (in a tree, in any order) is
  such a plan.
\<close>

datatype plan = Bundle "stat_event list" | Merge "plan list"

fun plan_events :: "plan \<Rightarrow> stat_event list" where
  "plan_events (Bundle evs) = evs"
| "plan_events (Merge ps) = concat (map plan_events ps)"

fun merges_nonempty :: "plan \<Rightarrow> bool" where
  "merges_nonempty (Bundle evs) = True"
| "merges_nonempty (Merge ps) = (ps \<noteq> [] \<and> list_all merges_nonempty ps)"

fun run_plan :: "plan \<Rightarrow> error + TranslationContributionStats" where
  "run_plan (Bundle evs) = add_inputs create_accumulator evs"
| "run_plan (Merge ps) =
     (case first_error (map run_plan ps) of
        Inl e \<Rightarrow> Inl e
      | Inr accumulators \<Rightarrow> merge_accumulators accumulators)"

text \<open>
  The plan of the model of \<^verbatim>\<open>run\<close> below: one bundle with all the values of the key,
  one merge of the one accumulator, then \<^verbatim>\<open>extract_output\<close>.
\<close>

definition combine_values :: "stat_event list \<Rightarrow> error + TranslationContributionStats" where
  "combine_values evs =
     (case run_plan (Merge [Bundle evs]) of
        Inl e \<Rightarrow> Inl e
      | Inr accumulator \<Rightarrow> Inr (extract_output accumulator))"

subsection \<open>Suggestions, opportunities and the events derived from them\<close>

text \<open>
  A \<^verbatim>\<open>datetime\<close> is a calendar date and a time of day; \<^verbatim>\<open>.date()\<close> keeps the first.
\<close>

record datetime =
  date_part :: date
  seconds_of_day :: nat

text \<open>
  The fields of a suggestion that the job reads: \<^verbatim>\<open>suggestion_type\<close>,
  \<^verbatim>\<open>target_id\<close>, \<^verbatim>\<open>language_code\<close>, \<^verbatim>\<open>author_id\<close>, \<^verbatim>\<open>status\<close>,
  \<^verbatim>\<open>edited_by_reviewer\<close>, \<^verbatim>\<open>change.content_html\<close> and \<^verbatim>\<open>last_updated\<close>; of an
  opportunity, \<^verbatim>\<open>id\<close> and \<^verbatim>\<open>topic_id\<close>. The conversions from the storage models to
  the domain objects keep these fields, so one record stands for both.
\<close>

record suggestion =
  suggestion_type :: string
  target_id :: string
  suggestion_language_code :: string
  author_id :: string
  status :: string
  suggestion_edited_by_reviewer :: bool
  content_html :: string
  last_updated :: datetime

record opportunity =
  opportunity_id :: string
  opportunity_topic_id :: string

text \<open>
  Modelled from the spec: \<^verbatim>\<open>feconf.SUGGESTION_TYPE_TRANSLATE_CONTENT\<close> is declared
  outside the source at hand; it names the translation-content type of proposal.
\<close>

definition SUGGESTION_TYPE_TRANSLATE_CONTENT :: string where
  "SUGGESTION_TYPE_TRANSLATE_CONTENT = ''translate_content''"

text \<open>
  Modelled from the spec: \<^verbatim>\<open>TranslationContributionStatsModel.generate_id\<close> is declared
  outside the source at hand; the canonical string form of a key is its three
  components joined by the delimiter \<^verbatim>\<open>.\<close>
\<close>

definition generate_id :: "string \<Rightarrow> string \<Rightarrow> string \<Rightarrow> string" where
  "generate_id language contributor topic = language @ ''.'' @ contributor @ ''.'' @ topic"

text \<open>
  Python's \<^verbatim>\<open>str.split()\<close> without argument: the maximal runs of characters that are
  not whitespace. The whitespace characters are those of \<^verbatim>\<open>str.isspace\<close> among the
  first 256 code points.
\<close>

definition is_space :: "char \<Rightarrow> bool" where
  "is_space c =
     (c \<in> set [CHR '' '', CHR 0x09, CHR 0x0A, CHR 0x0B, CHR 0x0C, CHR 0x0D,
               CHR 0x1C, CHR 0x1D, CHR 0x1E, CHR 0x1F, CHR 0x85, CHR 0xA0])"

fun split_words :: "string \<Rightarrow> string \<Rightarrow> string list" where
  "split_words cur [] = (if cur = [] then [] else [cur])"
| "split_words cur (c # cs) =
     (if is_space c then (if cur = [] then split_words [] cs else cur # split_words [] cs)
      else split_words (cur @ [c]) cs)"

definition split_whitespace :: "string \<Rightarrow> string list" where
  "split_whitespace s = split_words [] s"

text \<open>\<^verbatim>\<open>str(n)\<close> for a natural number, and \<^verbatim>\<open>date.isoformat()\<close>, that is \<^verbatim>\<open>%04d-%02d-%02d\<close>.\<close>

definition digit_char :: "nat \<Rightarrow> char" where
  "digit_char n = ''0123456789'' ! (n mod 10)"

function str_nat :: "nat \<Rightarrow> string" where
  "str_nat n = (if n < 10 then [digit_char n] else str_nat (n div 10) @ [digit_char n])"
  by pat_completeness auto
termination
  by (relation "measure id") auto

declare str_nat.simps [simp del]

definition zero_padded :: "nat \<Rightarrow> nat \<Rightarrow> string" where
  "zero_padded width n = replicate (width - length (str_nat n)) (CHR ''0'') @ str_nat n"

definition isoformat :: "date \<Rightarrow> string" where
  "isoformat d = zero_padded 4 (year d) @ ''-'' @ zero_padded 2 (month d) @ ''-'' @ zero_padded 2 (day d)"

text \<open>
  \<^verbatim>\<open>_generate_stats\<close> (an Isabelle name cannot start with an underscore). The generator
  yields one pair for each suggestion; the list holds them in the order yielded.
  \<^verbatim>\<open>html_cleaner.strip_html_tags\<close> is outside the source at hand and is the parameter
  \<open>strip_html_tags\<close>.
\<close>

definition generate_stats ::
  "(string \<Rightarrow> string) \<Rightarrow> suggestion list \<Rightarrow> opportunity option \<Rightarrow> (string \<times> stat_event) list" where
  "generate_stats strip_html_tags suggestions opp =
     (let topic = (case opp of None \<Rightarrow> [] | Some opportunity \<Rightarrow> opportunity_topic_id opportunity)
      in map (\<lambda>suggestion.
           let content_plain_text = strip_html_tags (content_html suggestion);
               word_count = int (length (split_whitespace content_plain_text));
               key = generate_id (suggestion_language_code suggestion) (author_id suggestion) topic
           in (key,
               \<lparr>suggestion_status = status suggestion,
                edited_by_reviewer = suggestion_edited_by_reviewer suggestion,
                content_word_count = word_count,
                last_updated_date = isoformat (date_part (last_updated suggestion))\<rparr>))
         suggestions)"

subsection \<open>The storage model and \<^verbatim>\<open>_generate_translation_contribution_model\<close>\<close>

record TranslationContributionStatsModel =
  model_id :: string
  model_language_code :: string
  model_contributor_user_id :: string
  model_topic_id :: string
  model_submitted_translations_count :: int
  model_submitted_translation_word_count :: int
  model_accepted_translations_count :: int
  model_accepted_translations_without_reviewer_edits_count :: int
  model_accepted_translation_word_count :: int
  model_rejected_translations_count :: int
  model_rejected_translation_word_count :: int
  model_contribution_dates :: "date set"

text \<open>
  The unpacking \<^verbatim>\<open>a, b, c = entity_id.split('.')\<close> raises \<^verbatim>\<open>ValueError\<close> unless the
  split has exactly three pieces. The datastore context and the timestamps are outside
  the model.
\<close>

definition generate_translation_contribution_model ::
  "string \<Rightarrow> TranslationContributionStats \<Rightarrow> error + TranslationContributionStatsModel" where
  "generate_translation_contribution_model entity_id translation =
     (case split_on (CHR ''.'') entity_id of
        [language, contributor, topic] \<Rightarrow>
          Inr \<lparr>model_id = entity_id,
               model_language_code = language,
               model_contributor_user_id = contributor,
               model_topic_id = topic,
               model_submitted_translations_count = submitted_translations_count translation,
               model_submitted_translation_word_count =
                 submitted_translation_word_count translation,
               model_accepted_translations_count = accepted_translations_count translation,
               model_accepted_translations_without_reviewer_edits_count =
                 accepted_translations_without_reviewer_edits_count translation,
               model_accepted_translation_word_count =
                 accepted_translation_word_count translation,
               model_rejected_translations_count = rejected_translations_count translation,
               model_rejected_translation_word_count =
                 rejected_translation_word_count translation,
               model_contribution_dates = contribution_dates translation\<rparr>
      | _ \<Rightarrow> Inl ValueError)"

subsection \<open>The pipeline of \<^verbatim>\<open>run\<close>\<close>

text \<open>
  \<^verbatim>\<open>beam.GroupBy(f)\<close>: one pair of a key and the elements with that key, for each key
  that occurs. Keys come in the order of their first occurrence and the elements of a
  group in the order of the input; Beam promises no order.
\<close>

definition first_occurrences :: "'a list \<Rightarrow> 'a list" where
  "first_occurrences xs = rev (remdups (rev xs))"

definition group_by :: "('a \<Rightarrow> 'k) \<Rightarrow> 'a list \<Rightarrow> ('k \<times> 'a list) list" where
  "group_by f xs = map (\<lambda>k. (k, filter (\<lambda>x. f x = k) xs)) (first_occurrences (map f xs))"

text \<open>
  \<^verbatim>\<open>beam.CoGroupByKey()\<close> on the dictionary with the tags \<^verbatim>\<open>suggestion\<close> and
  \<^verbatim>\<open>opportunity\<close>: for each key of either side, the list of that side's values with
  the key (here no value or one value, a group). \<^verbatim>\<open>beam.Values()\<close> drops the key.
\<close>

record ('a, 'b) cogroup =
  tagged_suggestion :: "'a list"
  tagged_opportunity :: "'b list"

definition co_group_by_key ::
  "('k \<times> 'a) list \<Rightarrow> ('k \<times> 'b) list \<Rightarrow> ('k \<times> ('a, 'b) cogroup) list" where
  "co_group_by_key left right =
     map (\<lambda>k. (k, \<lparr>tagged_suggestion = map snd (filter (\<lambda>p. fst p = k) left),
                   tagged_opportunity = map snd (filter (\<lambda>p. fst p = k) right)\<rparr>))
       (first_occurrences (map fst left @ map fst right))"

text \<open>
  The function of the step \<^verbatim>\<open>Generate stats\<close>:
  \<^verbatim>\<open>x['suggestion'][0] if len(x['suggestion']) else []\<close> and
  \<^verbatim>\<open>list(x['opportunity'][0])[0] if len(x['opportunity']) else None\<close>.
\<close>

definition generate_stats_step ::
  "(string \<Rightarrow> string) \<Rightarrow> (suggestion list, opportunity list) cogroup
     \<Rightarrow> error + (string \<times> stat_event) list" where
  "generate_stats_step strip_html_tags x =
     (let suggestions = (case tagged_suggestion x of [] \<Rightarrow> [] | g # _ \<Rightarrow> g)
      in case tagged_opportunity x of
           [] \<Rightarrow> Inr (generate_stats strip_html_tags suggestions None)
         | g # _ \<Rightarrow>
             (case g of
                [] \<Rightarrow> Inl IndexError
              | opp # _ \<Rightarrow> Inr (generate_stats strip_html_tags suggestions (Some opp))))"

text \<open>The keyed events that reach \<^verbatim>\<open>CombinePerKey\<close>.\<close>

definition generated_stats ::
  "(string \<Rightarrow> string) \<Rightarrow> suggestion list \<Rightarrow> opportunity list
     \<Rightarrow> error + (string \<times> stat_event) list" where
  "generated_stats strip_html_tags suggestion_models opportunity_models =
     (let suggestions_grouped_by_target =
            group_by target_id
              (filter (\<lambda>m. suggestion_type m = SUGGESTION_TYPE_TRANSLATE_CONTENT)
                 suggestion_models);
          exp_opportunities = group_by opportunity_id opportunity_models
      in case first_error
                (map (generate_stats_step strip_html_tags)
                   (map snd (co_group_by_key suggestions_grouped_by_target exp_opportunities))) of
           Inl e \<Rightarrow> Inl e
         | Inr yielded \<Rightarrow> Inr (concat yielded))"

definition combine_per_key ::
  "(string \<times> stat_event) list \<Rightarrow> error + (string \<times> TranslationContributionStats) list" where
  "combine_per_key keyed =
     first_error
       (map (\<lambda>(k, evs). case combine_values evs of Inl e \<Rightarrow> Inl e | Inr a \<Rightarrow> Inr (k, a))
          (map (\<lambda>(k, g). (k, map snd g)) (group_by fst keyed)))"

text \<open>
  \<^verbatim>\<open>Count.Globally().without_defaults()\<close> gives the number of elements of a collection
  that has some, and nothing for an empty collection.
\<close>

definition count_globally_without_defaults :: "'a list \<Rightarrow> nat list" where
  "count_globally_without_defaults xs = (if xs = [] then [] else [length xs])"

datatype JobRunResult = JobRunResult (stdout: string)

text \<open>
  \<^verbatim>\<open>run\<close>: the models handed to \<^verbatim>\<open>PutModels\<close> and the collection of results returned,
  or the exception that ends the pipeline.
\<close>

definition run ::
  "(string \<Rightarrow> string) \<Rightarrow> suggestion list \<Rightarrow> opportunity list
     \<Rightarrow> error + (TranslationContributionStatsModel list \<times> JobRunResult list)" where
  "run strip_html_tags suggestion_models opportunity_models =
     (case generated_stats strip_html_tags suggestion_models opportunity_models of
        Inl e \<Rightarrow> Inl e
      | Inr keyed \<Rightarrow>
          (case combine_per_key keyed of
             Inl e \<Rightarrow> Inl e
           | Inr combined \<Rightarrow>
               (case first_error
                       (map (\<lambda>(entity_id, translation).
                               generate_translation_contribution_model entity_id translation)
                          combined) of
                  Inl e \<Rightarrow> Inl e
                | Inr new_user_stats_models \<Rightarrow>
                    Inr (new_user_stats_models,
                         map (\<lambda>x. JobRunResult (''SUCCESS '' @ str_nat x))
                           (filter (\<lambda>x. x > 0)
                              (count_globally_without_defaults new_user_stats_models))))))"

subsection \<open>Notions used to state the properties\<close>

text \<open>
  The closed form of a fold: a bundle folds without exception exactly when every date
  parses, and then the accumulator has grown by these sums.
\<close>

definition dates_ok :: "stat_event list \<Rightarrow> bool" where
  "dates_ok evs = list_all (\<lambda>ev. case strptime_date (last_updated_date ev) of Inl _ \<Rightarrow> False | Inr _ \<Rightarrow> True) evs"

definition event_date :: "stat_event \<Rightarrow> date" where
  "event_date ev =
     (case strptime_date (last_updated_date ev) of
        Inl _ \<Rightarrow> \<lparr>year = 0, month = 0, day = 0\<rparr>
      | Inr d \<Rightarrow> d)"

definition tally :: "TranslationContributionStats \<Rightarrow> stat_event list \<Rightarrow> TranslationContributionStats" where
  "tally acc evs =
     \<lparr>language_code = language_code acc,
      contributor_user_id = contributor_user_id acc,
      topic_id = topic_id acc,
      submitted_translations_count = submitted_translations_count acc + int (length evs),
      submitted_translation_word_count =
        submitted_translation_word_count acc + sum_list (map content_word_count evs),
      accepted_translations_count =
        accepted_translations_count acc
        + sum_list (map (\<lambda>ev. of_bool (suggestion_status ev = STATUS_ACCEPTED)) evs),
      accepted_translations_without_reviewer_edits_count =
        accepted_translations_without_reviewer_edits_count acc
        + sum_list (map (\<lambda>ev. of_bool (suggestion_status ev = STATUS_ACCEPTED
                                         \<and> \<not> edited_by_reviewer ev)) evs),
      accepted_translation_word_count =
        accepted_translation_word_count acc
        + sum_list (map (\<lambda>ev. content_word_count ev
                                * of_bool (suggestion_status ev = STATUS_ACCEPTED)) evs),
      rejected_translations_count =
        rejected_translations_count acc
        + sum_list (map (\<lambda>ev. of_bool (suggestion_status ev = STATUS_REJECTED)) evs),
      rejected_translation_word_count =
        rejected_translation_word_count acc
        + sum_list (map (\<lambda>ev. content_word_count ev
                                * of_bool (suggestion_status ev = STATUS_REJECTED)) evs),
      contribution_dates = contribution_dates acc \<union> event_date ` set evs\<rparr>"

text \<open>The invariants that the spec lists for an aggregate.\<close>

definition stats_invariant :: "TranslationContributionStats \<Rightarrow> bool" where
  "stats_invariant a =
     (0 \<le> submitted_translations_count a
      \<and> 0 \<le> submitted_translation_word_count a
      \<and> 0 \<le> accepted_translations_count a
      \<and> 0 \<le> accepted_translations_without_reviewer_edits_count a
      \<and> 0 \<le> accepted_translation_word_count a
      \<and> 0 \<le> rejected_translations_count a
      \<and> 0 \<le> rejected_translation_word_count a
      \<and> accepted_translations_without_reviewer_edits_count a \<le> accepted_translations_count a
      \<and> accepted_translations_count a \<le> submitted_translations_count a
      \<and> accepted_translations_count a + rejected_translations_count a
          \<le> submitted_translations_count a
      \<and> accepted_translation_word_count a \<le> submitted_translation_word_count a
      \<and> rejected_translation_word_count a \<le> submitted_translation_word_count a
      \<and> finite (contribution_dates a)
      \<and> int (card (contribution_dates a)) \<le> submitted_translations_count a)"

text \<open>
  The aggregates that the combiner can hold: the fresh accumulator, an accumulator after
  \<^verbatim>\<open>add_input\<close> of an event that \<^verbatim>\<open>_generate_stats\<close> yields, and a merge of such.
\<close>

inductive reachable :: "TranslationContributionStats \<Rightarrow> bool" where
  identity: "reachable create_accumulator"
| fold: "reachable acc \<Longrightarrow> (k, ev) \<in> set (generate_stats strip_html_tags suggestions opp)
           \<Longrightarrow> add_input acc ev = Inr acc' \<Longrightarrow> reachable acc'"
| merge: "\<forall>acc \<in> set accs. reachable acc \<Longrightarrow> merge_accumulators accs = Inr acc'
           \<Longrightarrow> reachable acc'"

text \<open>
  The join, said directly: the suggestions of the translation type, the keys of the
  co-grouping, the topic that a target id is joined with, and the pair that the loop of
  \<^verbatim>\<open>_generate_stats\<close> yields for one suggestion under a topic.
\<close>

definition translate_suggestions :: "suggestion list \<Rightarrow> suggestion list" where
  "translate_suggestions suggestion_models =
     filter (\<lambda>m. suggestion_type m = SUGGESTION_TYPE_TRANSLATE_CONTENT) suggestion_models"

definition join_keys :: "suggestion list \<Rightarrow> opportunity list \<Rightarrow> string list" where
  "join_keys suggestion_models opportunity_models =
     first_occurrences
       (first_occurrences (map target_id (translate_suggestions suggestion_models))
        @ first_occurrences (map opportunity_id opportunity_models))"

definition joined_topic_id :: "opportunity list \<Rightarrow> string \<Rightarrow> string" where
  "joined_topic_id opportunity_models target =
     (case find (\<lambda>m. opportunity_id m = target) opportunity_models of
        None \<Rightarrow> []
      | Some opp \<Rightarrow> opportunity_topic_id opp)"

definition keyed_event :: "(string \<Rightarrow> string) \<Rightarrow> string \<Rightarrow> suggestion \<Rightarrow> string \<times> stat_event" where
  "keyed_event strip_html_tags topic suggestion =
     (generate_id (suggestion_language_code suggestion) (author_id suggestion) topic,
      \<lparr>suggestion_status = status suggestion,
       edited_by_reviewer = suggestion_edited_by_reviewer suggestion,
       content_word_count = int (length (split_whitespace (strip_html_tags (content_html suggestion)))),
       last_updated_date = isoformat (date_part (last_updated suggestion))\<rparr>)"

text \<open>
  A Python \<^verbatim>\<open>date\<close> has a year from 1 to 9999, a month from 1 to 12 and a day of
  that month.
\<close>

definition valid_date :: "date \<Rightarrow> bool" where
  "valid_date d =
     (1 \<le> year d \<and> year d \<le> 9999 \<and> 1 \<le> month d \<and> month d \<le> 12
      \<and> 1 \<le> day d \<and> day d \<le> days_in_month (year d) (month d))"

section \<open>Properties\<close>

subsection \<open>Evaluation and basic facts\<close>

lemmas date_eval = strptime_date_def year_token_def month_token_def day_token_def
  is_digit_def is_nonzero_digit_def read_nat_def digit_val_def days_in_month_def is_leap_def

lemma add_input_Inr:
  assumes "strptime_date (last_updated_date ev) = Inr d"
  shows "add_input acc ev =
     Inr \<lparr>language_code = language_code acc,
          contributor_user_id = contributor_user_id acc,
          topic_id = topic_id acc,
          submitted_translations_count = submitted_translations_count acc + 1,
          submitted_translation_word_count =
            submitted_translation_word_count acc + content_word_count ev,
          accepted_translations_count =
            accepted_translations_count acc + of_bool (suggestion_status ev = STATUS_ACCEPTED),
          accepted_translations_without_reviewer_edits_count =
            accepted_translations_without_reviewer_edits_count acc
            + of_bool (suggestion_status ev = STATUS_ACCEPTED \<and> \<not> edited_by_reviewer ev),
          accepted_translation_word_count =
            accepted_translation_word_count acc
            + content_word_count ev * of_bool (suggestion_status ev = STATUS_ACCEPTED),
          rejected_translations_count =
            rejected_translations_count acc + of_bool (suggestion_status ev = STATUS_REJECTED),
          rejected_translation_word_count =
            rejected_translation_word_count acc
            + content_word_count ev * of_bool (suggestion_status ev = STATUS_REJECTED),
          contribution_dates = contribution_dates acc \<union> {d}\<rparr>"
  using assms by (simp add: add_input_def Let_def)

lemma add_input_Inl:
  assumes "strptime_date (last_updated_date ev) = Inl e"
  shows "add_input acc ev = Inl e"
  using assms by (simp add: add_input_def Let_def)

lemma strptime_date_error: "strptime_date s = Inl e \<Longrightarrow> e = ValueError"
  by (auto simp: strptime_date_def Let_def split: list.splits if_splits)

subsection \<open>A date written by \<^verbatim>\<open>isoformat\<close> parses back\<close>

lemma below_ten: "(j::nat) < 10 \<Longrightarrow> j \<in> {0, 1, 2, 3, 4, 5, 6, 7, 8, 9}"
  by auto

lemma digit_char_props:
  "is_digit (digit_char k)" "digit_val (digit_char k) = k mod 10"
  "digit_char k \<noteq> CHR ''-''" "digit_char k \<noteq> CHR '' ''"
proof -
  have "k mod 10 < 10" by simp
  then have c: "k mod 10 \<in> {0, 1, 2, 3, 4, 5, 6, 7, 8, 9}" by (rule below_ten)
  show "is_digit (digit_char k)" using c by (auto simp: digit_char_def is_digit_def)
  show "digit_val (digit_char k) = k mod 10" using c by (auto simp: digit_char_def digit_val_def)
  show "digit_char k \<noteq> CHR ''-''" using c by (auto simp: digit_char_def)
  show "digit_char k \<noteq> CHR '' ''" using c by (auto simp: digit_char_def)
qed

lemma str_nat_1: "n < 10 \<Longrightarrow> str_nat n = [digit_char n]"
  by (simp add: str_nat.simps)

lemma str_nat_2: "10 \<le> n \<Longrightarrow> n < 100 \<Longrightarrow> str_nat n = [digit_char (n div 10), digit_char n]"
  by (subst str_nat.simps) (simp add: str_nat_1)

lemma str_nat_3:
  "100 \<le> n \<Longrightarrow> n < 1000 \<Longrightarrow> str_nat n = [digit_char (n div 100), digit_char (n div 10), digit_char n]"
  by (subst str_nat.simps) (simp add: str_nat_2 div_mult2_eq [symmetric])

lemma str_nat_4:
  "1000 \<le> n \<Longrightarrow> n < 10000 \<Longrightarrow>
   str_nat n = [digit_char (n div 1000), digit_char (n div 100), digit_char (n div 10), digit_char n]"
  by (subst str_nat.simps) (simp add: str_nat_3 div_mult2_eq [symmetric])

lemma digit_char_0: "k mod 10 = 0 \<Longrightarrow> digit_char k = CHR ''0''"
  by (simp add: digit_char_def)

lemma replicate_small:
  "replicate 2 x = [x, x]" "replicate 3 x = [x, x, x]"
  by (simp_all add: numeral_2_eq_2 numeral_3_eq_3)

lemma zero_padded_2:
  assumes "n < 100"
  shows "zero_padded 2 n = [digit_char (n div 10), digit_char n]"
proof (cases "n < 10")
  case True
  then show ?thesis by (simp add: zero_padded_def str_nat_1 digit_char_0 replicate_small)
next
  case False
  then show ?thesis using assms by (simp add: zero_padded_def str_nat_2)
qed

lemma zero_padded_4:
  assumes "n < 10000"
  shows "zero_padded 4 n
    = [digit_char (n div 1000), digit_char (n div 100), digit_char (n div 10), digit_char n]"
proof -
  consider "n < 10" | "10 \<le> n" "n < 100" | "100 \<le> n" "n < 1000" | "1000 \<le> n"
    by linarith
  then show ?thesis
  proof cases
    case 1
    then show ?thesis by (simp add: zero_padded_def str_nat_1 digit_char_0 replicate_small)
  next
    case 2
    then show ?thesis by (simp add: zero_padded_def str_nat_2 digit_char_0 replicate_small)
  next
    case 3
    then show ?thesis by (simp add: zero_padded_def str_nat_3 digit_char_0)
  next
    case 4
    then show ?thesis using assms by (simp add: zero_padded_def str_nat_4)
  qed
qed


lemma split_on_iso:
  assumes "a1 \<noteq> CHR ''-''" "a2 \<noteq> CHR ''-''" "a3 \<noteq> CHR ''-''" "a4 \<noteq> CHR ''-''"
    "b1 \<noteq> CHR ''-''" "b2 \<noteq> CHR ''-''" "c1 \<noteq> CHR ''-''" "c2 \<noteq> CHR ''-''"
  shows "split_on (CHR ''-'') ([a1, a2, a3, a4] @ ''-'' @ [b1, b2] @ ''-'' @ [c1, c2])
    = [[a1, a2, a3, a4], [b1, b2], [c1, c2]]"
  using assms by simp

lemma read_nat_2: "read_nat [a, b] = 10 * digit_val a + digit_val b"
  by (simp add: read_nat_def)

lemma read_nat_4:
  "read_nat [a, b, c, d] = 10 * (10 * (10 * digit_val a + digit_val b) + digit_val c) + digit_val d"
  by (simp add: read_nat_def)

lemma digits_step: "(n::nat) = 10 * (n div 10) + n mod 10"
  by simp

lemma two_digits: "(n::nat) < 100 \<Longrightarrow> 10 * (n div 10 mod 10) + n mod 10 = n"
proof -
  assume "n < 100"
  then have "n div 10 < 10" by (simp add: less_mult_imp_div_less)
  then have "n div 10 mod 10 = n div 10" by simp
  then show ?thesis by simp
qed

lemma four_digits:
  assumes "(n::nat) < 10000"
  shows "10 * (10 * (10 * (n div 1000 mod 10) + n div 100 mod 10) + n div 10 mod 10) + n mod 10 = n"
proof -
  have "n div 1000 < 10" using assms by (simp add: less_mult_imp_div_less)
  then have a: "n div 1000 mod 10 = n div 1000" by simp
  have "n div 100 div 10 = n div 1000" by (simp add: div_mult2_eq [symmetric])
  then have b: "10 * (n div 1000) + n div 100 mod 10 = n div 100"
    using digits_step [of "n div 100"] by simp
  have "n div 10 div 10 = n div 100" by (simp add: div_mult2_eq [symmetric])
  then have c: "10 * (n div 100) + n div 10 mod 10 = n div 10"
    using digits_step [of "n div 10"] by simp
  show ?thesis unfolding a b c by simp
qed

lemma read_two_digits:
  assumes "n < 100"
  shows "read_nat [digit_char (n div 10), digit_char n] = n"
  unfolding read_nat_2 digit_char_props by (rule two_digits [OF assms])

lemma read_four_digits:
  assumes "n < 10000"
  shows "read_nat [digit_char (n div 1000), digit_char (n div 100), digit_char (n div 10),
                   digit_char n] = n"
  unfolding read_nat_4 digit_char_props by (rule four_digits [OF assms])

lemma year_token_digits: "year_token [digit_char a, digit_char b, digit_char c, digit_char d]"
  by (simp add: year_token_def digit_char_props)

lemma month_token_digits:
  assumes "1 \<le> m" "m \<le> 12"
  shows "month_token [digit_char (m div 10), digit_char m]"
proof -
  from assms have "m = 1 \<or> m = 2 \<or> m = 3 \<or> m = 4 \<or> m = 5 \<or> m = 6 \<or> m = 7 \<or> m = 8
      \<or> m = 9 \<or> m = 10 \<or> m = 11 \<or> m = 12"
    by presburger
  then show ?thesis
    by (elim disjE) (simp_all add: month_token_def digit_char_def is_nonzero_digit_def)
qed

lemma day_token_digits:
  assumes "1 \<le> n" "n \<le> 31"
  shows "day_token [digit_char (n div 10), digit_char n]"
proof -
  from assms have "n = 1 \<or> n = 2 \<or> n = 3 \<or> n = 4 \<or> n = 5 \<or> n = 6 \<or> n = 7 \<or> n = 8
      \<or> n = 9 \<or> n = 10 \<or> n = 11 \<or> n = 12 \<or> n = 13 \<or> n = 14 \<or> n = 15 \<or> n = 16
      \<or> n = 17 \<or> n = 18 \<or> n = 19 \<or> n = 20 \<or> n = 21 \<or> n = 22 \<or> n = 23 \<or> n = 24
      \<or> n = 25 \<or> n = 26 \<or> n = 27 \<or> n = 28 \<or> n = 29 \<or> n = 30 \<or> n = 31"
    by presburger
  then show ?thesis
    by (elim disjE) (simp_all add: day_token_def digit_char_def is_nonzero_digit_def is_digit_def)
qed

lemma days_in_month_le: "days_in_month y m \<le> 31"
  by (simp add: days_in_month_def)

lemma strptime_isoformat:
  assumes "valid_date d"
  shows "strptime_date (isoformat d) = Inr d"
proof -
  from assms have y: "1 \<le> year d" "year d < 10000" and m: "1 \<le> month d" "month d \<le> 12"
    and dy: "1 \<le> day d" "day d \<le> days_in_month (year d) (month d)"
    by (simp_all add: valid_date_def)
  have dy31: "day d \<le> 31" using dy(2) days_in_month_le [of "year d" "month d"] by linarith
  have iso: "isoformat d =
      [digit_char (year d div 1000), digit_char (year d div 100), digit_char (year d div 10),
       digit_char (year d)] @ ''-'' @ [digit_char (month d div 10), digit_char (month d)]
      @ ''-'' @ [digit_char (day d div 10), digit_char (day d)]"
    using y m dy31 by (simp add: isoformat_def zero_padded_4 zero_padded_2)
  have sp: "split_on (CHR ''-'') (isoformat d) =
      [[digit_char (year d div 1000), digit_char (year d div 100), digit_char (year d div 10),
        digit_char (year d)],
       [digit_char (month d div 10), digit_char (month d)],
       [digit_char (day d div 10), digit_char (day d)]]"
    unfolding iso by (rule split_on_iso) (rule digit_char_props)+
  have ry: "read_nat [digit_char (year d div 1000), digit_char (year d div 100),
      digit_char (year d div 10), digit_char (year d)] = year d"
    using y by (simp add: read_four_digits)
  have rm: "read_nat [digit_char (month d div 10), digit_char (month d)] = month d"
    using m by (simp add: read_two_digits)
  have rd: "read_nat [digit_char (day d div 10), digit_char (day d)] = day d"
    using dy31 by (simp add: read_two_digits)
  show ?thesis
    unfolding strptime_date_def sp
    using y dy
    by (simp add: year_token_digits month_token_digits [OF m] day_token_digits [OF dy(1) dy31]
          digit_char_props ry rm rd)
qed


lemma generated_event_parses:
  assumes "(k, ev) \<in> set (generate_stats strip_html_tags suggestions opp)"
    and "\<And>s. s \<in> set suggestions \<Longrightarrow> valid_date (date_part (last_updated s))"
  shows "strptime_date (last_updated_date ev) = Inr (event_date ev)"
proof -
  from assms(1) obtain s where s: "s \<in> set suggestions"
    and ev: "last_updated_date ev = isoformat (date_part (last_updated s))"
    by (auto simp: generate_stats_def Let_def)
  have "strptime_date (last_updated_date ev) = Inr (date_part (last_updated s))"
    unfolding ev using assms(2) [OF s] by (rule strptime_isoformat)
  then show ?thesis by (simp add: event_date_def)
qed

subsection \<open>\<^verbatim>\<open>add_input\<close>\<close>

text \<open>
  Claim C2, amended. For every accumulator and every event whose
  \<^verbatim>\<open>last_updated_date\<close> parses under \<^verbatim>\<open>%Y-%m-%d\<close>,
  \<^verbatim>\<open>add_input\<close> returns a new accumulator: the submitted count grows by 1 and the
  submitted word count by the event's word count, always; the accepted count and word
  count grow exactly when the status is \<^verbatim>\<open>ACCEPTED\<close>, the count without reviewer
  edits exactly when moreover the reviewer did not edit, the rejected count and word
  count exactly when the status is \<^verbatim>\<open>REJECTED\<close>; the date is added to the
  contribution dates.
\<close>

theorem add_input_increments:
  assumes "strptime_date (last_updated_date ev) = Inr d"
  shows "\<exists>acc'. add_input acc ev = Inr acc'
    \<and> submitted_translations_count acc' = submitted_translations_count acc + 1
    \<and> submitted_translation_word_count acc' =
        submitted_translation_word_count acc + content_word_count ev
    \<and> accepted_translations_count acc' =
        accepted_translations_count acc + (if suggestion_status ev = STATUS_ACCEPTED then 1 else 0)
    \<and> accepted_translation_word_count acc' =
        accepted_translation_word_count acc
        + (if suggestion_status ev = STATUS_ACCEPTED then content_word_count ev else 0)
    \<and> accepted_translations_without_reviewer_edits_count acc' =
        accepted_translations_without_reviewer_edits_count acc
        + (if suggestion_status ev = STATUS_ACCEPTED \<and> \<not> edited_by_reviewer ev then 1 else 0)
    \<and> rejected_translations_count acc' =
        rejected_translations_count acc + (if suggestion_status ev = STATUS_REJECTED then 1 else 0)
    \<and> rejected_translation_word_count acc' =
        rejected_translation_word_count acc
        + (if suggestion_status ev = STATUS_REJECTED then content_word_count ev else 0)
    \<and> contribution_dates acc' = contribution_dates acc \<union> {d}
    \<and> language_code acc' = language_code acc
    \<and> contributor_user_id acc' = contributor_user_id acc
    \<and> topic_id acc' = topic_id acc"
  by (simp add: add_input_Inr [OF assms])

theorem add_input_increments_witness:
  "strptime_date (last_updated_date
       \<lparr>suggestion_status = ''accepted'', edited_by_reviewer = False,
        content_word_count = 2, last_updated_date = ''2024-03-05''\<rparr>)
     = Inr \<lparr>year = 2024, month = 3, day = 5\<rparr>
   \<and> (\<exists>acc'. add_input create_accumulator
          \<lparr>suggestion_status = ''accepted'', edited_by_reviewer = False,
           content_word_count = 2, last_updated_date = ''2024-03-05''\<rparr> = Inr acc'
        \<and> submitted_translations_count acc' = 1
        \<and> submitted_translation_word_count acc' = 2
        \<and> accepted_translations_count acc' = 1
        \<and> accepted_translation_word_count acc' = 2
        \<and> accepted_translations_without_reviewer_edits_count acc' = 1
        \<and> rejected_translations_count acc' = 0
        \<and> rejected_translation_word_count acc' = 0
        \<and> contribution_dates acc' = {\<lparr>year = 2024, month = 3, day = 5\<rparr>})"
  (is "?H \<and> ?C")
proof -
  have h: ?H by (simp add: date_eval)
  have c: ?C
    using add_input_increments [OF h, of create_accumulator]
    by (auto simp: create_accumulator_def create_default_def STATUS_ACCEPTED_def STATUS_REJECTED_def)
  from h c show ?thesis by blast
qed

text \<open>
  Claim C2 as stated fails: for an event with the date \<^verbatim>\<open>not-a-date\<close>
  \<^verbatim>\<open>add_input\<close> returns no accumulator, it raises \<^verbatim>\<open>ValueError\<close>.
\<close>

theorem add_input_raises_on_bad_date:
  "add_input create_accumulator
     \<lparr>suggestion_status = ''accepted'', edited_by_reviewer = False,
        content_word_count = 3, last_updated_date = ''not-a-date''\<rparr>
   = Inl ValueError"
  by code_simp

subsection \<open>Folding and merging\<close>

lemma tally_Nil: "tally acc [] = acc"
  by (simp add: tally_def)

lemma tally_Cons:
  assumes "add_input acc ev = Inr acc'"
  shows "tally acc' evs = tally acc (ev # evs)"
proof -
  from assms obtain d where d: "strptime_date (last_updated_date ev) = Inr d"
    by (cases "strptime_date (last_updated_date ev)") (simp_all add: add_input_def Let_def)
  have "event_date ev = d" using d by (simp add: event_date_def)
  moreover have "acc' = projr (add_input acc ev)" using assms by simp
  ultimately show ?thesis
    unfolding add_input_Inr [OF d] by (simp add: tally_def)
qed

lemma add_inputs_tally: "dates_ok evs \<Longrightarrow> add_inputs acc evs = Inr (tally acc evs)"
proof (induction evs arbitrary: acc)
  case Nil
  show ?case by (simp add: tally_Nil)
next
  case (Cons ev evs)
  from Cons.prems obtain d where d: "strptime_date (last_updated_date ev) = Inr d"
    by (cases "strptime_date (last_updated_date ev)") (simp_all add: dates_ok_def)
  from Cons.prems have ok: "dates_ok evs" by (simp add: dates_ok_def)
  obtain acc' where acc': "add_input acc ev = Inr acc'"
    using add_input_Inr [OF d] by blast
  show ?case using Cons.IH [OF ok, of acc'] acc' tally_Cons [OF acc'] by simp
qed

lemma add_inputs_error: "\<not> dates_ok evs \<Longrightarrow> add_inputs acc evs = Inl ValueError"
proof (induction evs arbitrary: acc)
  case Nil
  then show ?case by (simp add: dates_ok_def)
next
  case (Cons ev evs)
  show ?case
  proof (cases "strptime_date (last_updated_date ev)")
    case (Inl e)
    then show ?thesis
      using strptime_date_error [OF Inl] by (simp add: add_input_Inl)
  next
    case (Inr d)
    with Cons.prems have "\<not> dates_ok evs" by (simp add: dates_ok_def)
    then show ?thesis using Cons.IH add_input_Inr [OF Inr, of acc] by simp
  qed
qed

lemma add_inputs_eq:
  "add_inputs acc evs = (if dates_ok evs then Inr (tally acc evs) else Inl ValueError)"
  by (simp add: add_inputs_tally add_inputs_error)

lemma dates_ok_mset: "mset evs = mset evs' \<Longrightarrow> dates_ok evs = dates_ok evs'"
  by (auto simp: dates_ok_def list_all_iff dest: mset_eq_setD)

lemma sum_list_mset_cong:
  fixes f :: "'a \<Rightarrow> int"
  shows "mset xs = mset ys \<Longrightarrow> sum_list (map f xs) = sum_list (map f ys)"
  by (metis mset_map sum_mset_sum_list)

lemma tally_mset: 
  assumes "mset evs = mset evs'" 
  shows "tally acc evs = tally acc evs'"
proof -
  have "length evs = length evs'" using assms by (rule mset_eq_length)
  moreover have "set evs = set evs'" using assms by (rule mset_eq_setD)
  ultimately show ?thesis
    by (simp add: tally_def sum_list_mset_cong [OF assms])
qed

lemma dates_ok_concat: "dates_ok (concat gs) = list_all dates_ok gs"
  by (induction gs) (simp_all add: dates_ok_def)

lemma first_error_map:
  assumes "\<And>x. x \<in> set xs \<Longrightarrow> f x = (if ok x then Inr (g x) else Inl ValueError)"
  shows "first_error (map f xs) = (if list_all ok xs then Inr (map g xs) else Inl ValueError)"
  using assms by (induction xs) auto

lemma tally_fields_concat:
  "int (length (concat gs)) = sum_list (map (\<lambda>g. int (length g)) gs)"
  "sum_list (map (f :: stat_event \<Rightarrow> int) (concat gs)) = sum_list (map (\<lambda>g. sum_list (map f g)) gs)"
  "event_date ` set (concat gs) = \<Union> (set (map (\<lambda>g. event_date ` set g) gs))"
  by (induction gs) auto

lemma merge_tallies:
  assumes "gs \<noteq> []"
  shows "merge_accumulators (map (tally create_accumulator) gs)
           = Inr (tally create_accumulator (concat gs))"
proof -
  obtain g gs' where gs: "gs = g # gs'" using assms by (cases gs) auto
  show ?thesis
    unfolding merge_accumulators_def
    by (simp add: gs tally_def create_accumulator_def create_default_def comp_def
          tally_fields_concat image_Un image_UN)
qed

lemma run_plan_eq:
  "merges_nonempty p \<Longrightarrow>
   run_plan p = (if dates_ok (plan_events p)
                 then Inr (tally create_accumulator (plan_events p)) else Inl ValueError)"
proof (induction p)
  case (Bundle evs)
  show ?case by (simp add: add_inputs_eq)
next
  case (Merge ps)
  from Merge.prems have ne: "ps \<noteq> []" and sub: "\<And>q. q \<in> set ps \<Longrightarrow> merges_nonempty q"
    by (simp_all add: list_all_iff)
  have "first_error (map run_plan ps) =
          (if list_all (\<lambda>q. dates_ok (plan_events q)) ps
           then Inr (map (\<lambda>q. tally create_accumulator (plan_events q)) ps)
           else Inl ValueError)"
    by (rule first_error_map) (simp add: Merge.IH sub)
  moreover have "dates_ok (plan_events (Merge ps)) = list_all (\<lambda>q. dates_ok (plan_events q)) ps"
    by (simp add: dates_ok_concat list_all_iff)
  moreover have "merge_accumulators (map (\<lambda>q. tally create_accumulator (plan_events q)) ps)
      = Inr (tally create_accumulator (plan_events (Merge ps)))"
    using merge_tallies [of "map plan_events ps"] ne by (simp add: comp_def)
  ultimately show ?case by simp
qed

text \<open>
  Claim C1. However the events of a key are cut into bundles, in whatever order, and
  however the partial accumulators are merged (every merge of at least one
  accumulator), the outcome is the outcome of folding all the events, in any order,
  into one fresh accumulator: the same aggregate, or the same exception when a date
  does not parse.
\<close>

theorem combine_any_plan:
  assumes "merges_nonempty p" and "mset (plan_events p) = mset evs"
  shows "run_plan p = add_inputs create_accumulator evs"
  using assms
  by (simp add: run_plan_eq add_inputs_eq dates_ok_mset [OF assms(2)] tally_mset [OF assms(2)])

theorem combine_any_plan_witness:
  "merges_nonempty
     (Merge [Bundle [\<lparr>suggestion_status = ''accepted'', edited_by_reviewer = False,
                      content_word_count = 3, last_updated_date = ''2024-03-05''\<rparr>],
             Merge [Bundle [\<lparr>suggestion_status = ''rejected'', edited_by_reviewer = False,
                             content_word_count = 5, last_updated_date = ''2024-01-06''\<rparr>],
                    Bundle []]])
   \<and> mset (plan_events
        (Merge [Bundle [\<lparr>suggestion_status = ''accepted'', edited_by_reviewer = False,
                         content_word_count = 3, last_updated_date = ''2024-03-05''\<rparr>],
                Merge [Bundle [\<lparr>suggestion_status = ''rejected'', edited_by_reviewer = False,
                                content_word_count = 5, last_updated_date = ''2024-01-06''\<rparr>],
                       Bundle []]]))
       = mset [\<lparr>suggestion_status = ''rejected'', edited_by_reviewer = False,
                content_word_count = 5, last_updated_date = ''2024-01-06''\<rparr>,
               \<lparr>suggestion_status = ''accepted'', edited_by_reviewer = False,
                content_word_count = 3, last_updated_date = ''2024-03-05''\<rparr>]
   \<and> run_plan
        (Merge [Bundle [\<lparr>suggestion_status = ''accepted'', edited_by_reviewer = False,
                         content_word_count = 3, last_updated_date = ''2024-03-05''\<rparr>],
                Merge [Bundle [\<lparr>suggestion_status = ''rejected'', edited_by_reviewer = False,
                                content_word_count = 5, last_updated_date = ''2024-01-06''\<rparr>],
                       Bundle []]])
       = add_inputs create_accumulator
           [\<lparr>suggestion_status = ''rejected'', edited_by_reviewer = False,
             content_word_count = 5, last_updated_date = ''2024-01-06''\<rparr>,
            \<lparr>suggestion_status = ''accepted'', edited_by_reviewer = False,
             content_word_count = 3, last_updated_date = ''2024-03-05''\<rparr>]"
  (is "?A \<and> ?B \<and> ?C")
proof -
  have a: ?A by simp
  have b: ?B by simp
  from combine_any_plan [OF a b] have c: ?C .
  from a b c show ?thesis by blast
qed

text \<open>
  Claim C7. Merging the fresh accumulator with an aggregate \<open>x\<close> that a fold of events
  produced gives \<open>x\<close> back, in every field.
\<close>

theorem merge_identity_left:
  assumes "add_inputs create_accumulator evs = Inr x"
  shows "merge_accumulators [create_accumulator, x] = Inr x"
proof -
  have "x = tally create_accumulator evs"
    using assms by (simp add: add_inputs_eq split: if_splits)
  then show ?thesis
    by (simp add: merge_accumulators_def tally_def create_accumulator_def create_default_def)
qed

theorem merge_identity_left_witness:
  "add_inputs create_accumulator
     [\<lparr>suggestion_status = ''accepted'', edited_by_reviewer = False,
       content_word_count = 2, last_updated_date = ''2024-03-05''\<rparr>]
     = Inr \<lparr>language_code = None, contributor_user_id = None, topic_id = None,
      submitted_translations_count = 1,
      submitted_translation_word_count = 2,
      accepted_translations_count = 1,
      accepted_translations_without_reviewer_edits_count = 1,
      accepted_translation_word_count = 2,
      rejected_translations_count = 0,
      rejected_translation_word_count = 0,
      contribution_dates = {\<lparr>year = 2024, month = 3, day = 5\<rparr>}\<rparr>
   \<and> merge_accumulators [create_accumulator,
       \<lparr>language_code = None, contributor_user_id = None, topic_id = None,
      submitted_translations_count = 1,
      submitted_translation_word_count = 2,
      accepted_translations_count = 1,
      accepted_translations_without_reviewer_edits_count = 1,
      accepted_translation_word_count = 2,
      rejected_translations_count = 0,
      rejected_translation_word_count = 0,
      contribution_dates = {\<lparr>year = 2024, month = 3, day = 5\<rparr>}\<rparr>]
     = Inr \<lparr>language_code = None, contributor_user_id = None, topic_id = None,
      submitted_translations_count = 1,
      submitted_translation_word_count = 2,
      accepted_translations_count = 1,
      accepted_translations_without_reviewer_edits_count = 1,
      accepted_translation_word_count = 2,
      rejected_translations_count = 0,
      rejected_translation_word_count = 0,
      contribution_dates = {\<lparr>year = 2024, month = 3, day = 5\<rparr>}\<rparr>"
  (is "?H \<and> ?C")
proof -
  have h: ?H by code_simp
  from merge_identity_left [OF h] have c: ?C .
  from h c show ?thesis by blast
qed

lemma dates_not_ok:
  assumes "ev \<in> set evs" and "strptime_date (last_updated_date ev) = Inl e"
  shows "\<not> dates_ok evs"
proof
  assume "dates_ok evs"
  then have "case strptime_date (last_updated_date ev) of Inl _ \<Rightarrow> False | Inr _ \<Rightarrow> True"
    using assms(1) by (simp add: dates_ok_def list_all_iff)
  then show False using assms(2) by simp
qed

text \<open>
  Claim C9, amended. An event whose \<^verbatim>\<open>last_updated_date\<close> does not parse makes
  \<^verbatim>\<open>add_input\<close> raise \<^verbatim>\<open>ValueError\<close>; nothing catches it, so every fold and every
  combining plan that holds the event ends with \<^verbatim>\<open>ValueError\<close>. The events that
  \<^verbatim>\<open>_generate_stats\<close> yields carry the date in ISO format, which parses, so none of
  them is such an event.
\<close>

theorem unparsable_date_raises:
  assumes "strptime_date (last_updated_date ev) = Inl e"
  shows "add_input acc ev = Inl ValueError
    \<and> (ev \<in> set evs \<longrightarrow> add_inputs acc evs = Inl ValueError)
    \<and> (merges_nonempty p \<and> ev \<in> set (plan_events p) \<longrightarrow> run_plan p = Inl ValueError)
    \<and> ((\<forall>s \<in> set suggestions. valid_date (date_part (last_updated s))) \<longrightarrow>
         (\<forall>keyed \<in> set (generate_stats strip_html_tags suggestions opp).
            strptime_date (last_updated_date (snd keyed)) = Inr (event_date (snd keyed))))"
proof (intro conjI impI ballI)
  show "add_input acc ev = Inl ValueError"
    using add_input_Inl [OF assms] strptime_date_error [OF assms] by simp
next
  assume "ev \<in> set evs"
  then have "\<not> dates_ok evs" using assms by (rule dates_not_ok)
  then show "add_inputs acc evs = Inl ValueError" by (rule add_inputs_error)
next
  assume p: "merges_nonempty p \<and> ev \<in> set (plan_events p)"
  then have "ev \<in> set (plan_events p)" by simp
  then have "\<not> dates_ok (plan_events p)" using assms by (rule dates_not_ok)
  then show "run_plan p = Inl ValueError"
    using p by (simp add: run_plan_eq)
next
  fix keyed
  assume v: "\<forall>s \<in> set suggestions. valid_date (date_part (last_updated s))"
    and k: "keyed \<in> set (generate_stats strip_html_tags suggestions opp)"
  from k have "(fst keyed, snd keyed) \<in> set (generate_stats strip_html_tags suggestions opp)"
    by simp
  then show "strptime_date (last_updated_date (snd keyed)) = Inr (event_date (snd keyed))"
    by (rule generated_event_parses) (use v in blast)
qed

theorem unparsable_date_raises_witness:
  "strptime_date (last_updated_date
     \<lparr>suggestion_status = ''accepted'', edited_by_reviewer = False,
        content_word_count = 3, last_updated_date = ''not-a-date''\<rparr>) = Inl ValueError
   \<and> add_input create_accumulator
       \<lparr>suggestion_status = ''accepted'', edited_by_reviewer = False,
        content_word_count = 3, last_updated_date = ''not-a-date''\<rparr> = Inl ValueError
   \<and> run_plan (Merge [Bundle [\<lparr>suggestion_status = ''accepted'', edited_by_reviewer = False,
        content_word_count = 2, last_updated_date = ''2024-03-05''\<rparr>],
                      Bundle [\<lparr>suggestion_status = ''accepted'', edited_by_reviewer = False,
        content_word_count = 3, last_updated_date = ''not-a-date''\<rparr>]]) = Inl ValueError
   \<and> valid_date (date_part (last_updated
       \<lparr>suggestion_type = ''translate_content'', target_id = ''exp1'',
       suggestion_language_code = ''es'', author_id = ''u1'', status = ''accepted'',
       suggestion_edited_by_reviewer = False, content_html = ''hi there'',
       last_updated = \<lparr>date_part = \<lparr>year = 2024, month = 3, day = 5\<rparr>, seconds_of_day = 0\<rparr>\<rparr>))
   \<and> strptime_date (last_updated_date
       \<lparr>suggestion_status = ''accepted'', edited_by_reviewer = False,
        content_word_count = 2, last_updated_date = ''2024-03-05''\<rparr>)
       = Inr (event_date
       \<lparr>suggestion_status = ''accepted'', edited_by_reviewer = False,
        content_word_count = 2, last_updated_date = ''2024-03-05''\<rparr>)"
  (is "?H \<and> ?A \<and> ?B \<and> ?V \<and> ?G")
proof -
  let ?s = "\<lparr>suggestion_type = ''translate_content'', target_id = ''exp1'',
       suggestion_language_code = ''es'', author_id = ''u1'', status = ''accepted'',
       suggestion_edited_by_reviewer = False, content_html = ''hi there'',
       last_updated = \<lparr>date_part = \<lparr>year = 2024, month = 3, day = 5\<rparr>, seconds_of_day = 0\<rparr>\<rparr>"
  let ?ok = "\<lparr>suggestion_status = ''accepted'', edited_by_reviewer = False,
        content_word_count = 2, last_updated_date = ''2024-03-05''\<rparr>"
  let ?bad = "\<lparr>suggestion_status = ''accepted'', edited_by_reviewer = False,
        content_word_count = 3, last_updated_date = ''not-a-date''\<rparr>"
  have h: ?H by (simp add: date_eval)
  note T = unparsable_date_raises [OF h, of create_accumulator "[]"
    "Merge [Bundle [?ok], Bundle [?bad]]" "[?s]" id None]
  have m: "merges_nonempty (Merge [Bundle [?ok], Bundle [?bad]])
      \<and> ?bad \<in> set (plan_events (Merge [Bundle [?ok], Bundle [?bad]]))"
    by simp
  have v: ?V by (simp add: valid_date_def days_in_month_def)
  then have vs: "\<forall>s \<in> set [?s]. valid_date (date_part (last_updated s))" by simp
  have gs: "generate_stats id [?s] None = [(''es.u1.'', ?ok)]" by code_simp
  from T have a: ?A by (rule conjunct1)
  from T have "merges_nonempty (Merge [Bundle [?ok], Bundle [?bad]])
      \<and> ?bad \<in> set (plan_events (Merge [Bundle [?ok], Bundle [?bad]])) \<longrightarrow> ?B"
    by (rule conjunct1 [OF conjunct2 [OF conjunct2]])
  with m have b: ?B by (rule rev_mp)
  from T have "(\<forall>s \<in> set [?s]. valid_date (date_part (last_updated s))) \<longrightarrow>
      (\<forall>keyed \<in> set (generate_stats id [?s] None).
         strptime_date (last_updated_date (snd keyed)) = Inr (event_date (snd keyed)))"
    by (rule conjunct2 [OF conjunct2 [OF conjunct2]])
  with vs have "\<forall>keyed \<in> set (generate_stats id [?s] None).
         strptime_date (last_updated_date (snd keyed)) = Inr (event_date (snd keyed))"
    by (rule rev_mp)
  then have "strptime_date (last_updated_date (snd (''es.u1.'', ?ok)))
      = Inr (event_date (snd (''es.u1.'', ?ok)))"
    unfolding gs by simp
  then have g: ?G by (simp only: snd_conv)
  from h a b v g show ?thesis by blast
qed

text \<open>
  Claim C9 as stated fails: one event with the date \<^verbatim>\<open>not-a-date\<close> ends the
  combining of its key with \<^verbatim>\<open>ValueError\<close>; the event is not skipped and the other
  event of the key is lost with it.
\<close>

theorem unparsable_date_aborts_key:
  "combine_per_key
     [(''es.u1.t1'', \<lparr>suggestion_status = ''accepted'', edited_by_reviewer = False,
        content_word_count = 2, last_updated_date = ''2024-03-05''\<rparr>),
      (''es.u1.t1'', \<lparr>suggestion_status = ''accepted'', edited_by_reviewer = False,
        content_word_count = 3, last_updated_date = ''not-a-date''\<rparr>)]
   = Inl ValueError"
  by code_simp

subsection \<open>The invariants of an aggregate\<close>

lemma invariant_identity: "stats_invariant create_accumulator"
  by (simp add: stats_invariant_def create_accumulator_def create_default_def)

lemma status_constants_differ: "STATUS_ACCEPTED \<noteq> STATUS_REJECTED"
  by (simp add: STATUS_ACCEPTED_def STATUS_REJECTED_def)

lemma invariant_add_input:
  assumes inv: "stats_invariant acc" and wc: "0 \<le> content_word_count ev"
    and step: "add_input acc ev = Inr acc'"
  shows "stats_invariant acc'"
proof -
  from step obtain d where d: "strptime_date (last_updated_date ev) = Inr d"
    by (cases "strptime_date (last_updated_date ev)") (simp_all add: add_input_def Let_def)
  have acc': "acc' = projr (add_input acc ev)" using step by simp
  have fin: "finite (contribution_dates acc)" using inv by (simp add: stats_invariant_def)
  have card: "int (card (insert d (contribution_dates acc))) \<le> int (card (contribution_dates acc)) + 1"
    using fin by (simp add: card_insert_if)
  show ?thesis
    using inv wc card status_constants_differ
    unfolding acc' add_input_Inr [OF d] stats_invariant_def
    by (auto simp: of_bool_def)
qed

lemma generate_stats_word_count:
  "(k, ev) \<in> set (generate_stats strip_html_tags suggestions opp) \<Longrightarrow> 0 \<le> content_word_count ev"
  by (auto simp: generate_stats_def Let_def)

lemma sum_list_nonneg_int:
  fixes f :: "'a \<Rightarrow> int"
  shows "(\<And>x. x \<in> set xs \<Longrightarrow> 0 \<le> f x) \<Longrightarrow> 0 \<le> sum_list (map f xs)"
  by (induction xs) auto

lemma sum_list_le_int:
  fixes f g :: "'a \<Rightarrow> int"
  shows "(\<And>x. x \<in> set xs \<Longrightarrow> f x \<le> g x) \<Longrightarrow> sum_list (map f xs) \<le> sum_list (map g xs)"
  by (induction xs) (auto intro: add_mono)

lemma sum_list_add_le_int:
  fixes f g h :: "'a \<Rightarrow> int"
  shows "(\<And>x. x \<in> set xs \<Longrightarrow> f x + g x \<le> h x)
    \<Longrightarrow> sum_list (map f xs) + sum_list (map g xs) \<le> sum_list (map h xs)"
proof (induction xs)
  case Nil
  show ?case by simp
next
  case (Cons x xs)
  have "f x + g x \<le> h x" using Cons.prems by simp
  moreover have "sum_list (map f xs) + sum_list (map g xs) \<le> sum_list (map h xs)"
    using Cons by simp
  ultimately show ?case by simp
qed

lemma card_Union_le:
  assumes "\<And>x. x \<in> set xs \<Longrightarrow> finite (D x) \<and> int (card (D x)) \<le> c x"
  shows "finite (\<Union> (set (map D xs))) \<and> int (card (\<Union> (set (map D xs)))) \<le> sum_list (map c xs)"
  using assms
proof (induction xs)
  case Nil
  show ?case by simp
next
  case (Cons x xs)
  have x: "finite (D x)" "int (card (D x)) \<le> c x" using Cons.prems by simp_all
  have IH: "finite (\<Union> (set (map D xs)))"
    "int (card (\<Union> (set (map D xs)))) \<le> sum_list (map c xs)"
    using Cons by simp_all
  have "card (D x \<union> \<Union> (set (map D xs))) \<le> card (D x) + card (\<Union> (set (map D xs)))"
    by (rule card_Un_le)
  then show ?case using x IH by simp
qed

lemma invariant_merge:
  assumes inv: "\<And>a. a \<in> set accs \<Longrightarrow> stats_invariant a"
    and step: "merge_accumulators accs = Inr acc'"
  shows "stats_invariant acc'"
proof -
  obtain first rest where accs: "accs = first # rest"
    using step by (cases accs) (simp_all add: merge_accumulators_def)
  have acc': "acc' = projr (merge_accumulators accs)" using step by simp
  note I = inv [unfolded stats_invariant_def]
  have dates: "finite (\<Union> (set (map contribution_dates accs)))
     \<and> int (card (\<Union> (set (map contribution_dates accs))))
         \<le> sum_list (map submitted_translations_count accs)"
    by (rule card_Union_le) (use I in blast)
  have nonneg:
    "0 \<le> sum_list (map submitted_translations_count accs)"
    "0 \<le> sum_list (map submitted_translation_word_count accs)"
    "0 \<le> sum_list (map accepted_translations_count accs)"
    "0 \<le> sum_list (map accepted_translations_without_reviewer_edits_count accs)"
    "0 \<le> sum_list (map accepted_translation_word_count accs)"
    "0 \<le> sum_list (map rejected_translations_count accs)"
    "0 \<le> sum_list (map rejected_translation_word_count accs)"
    by (rule sum_list_nonneg_int, use I in blast)+
  have le:
    "sum_list (map accepted_translations_without_reviewer_edits_count accs)
       \<le> sum_list (map accepted_translations_count accs)"
    "sum_list (map accepted_translations_count accs)
       \<le> sum_list (map submitted_translations_count accs)"
    "sum_list (map accepted_translation_word_count accs)
       \<le> sum_list (map submitted_translation_word_count accs)"
    "sum_list (map rejected_translation_word_count accs)
       \<le> sum_list (map submitted_translation_word_count accs)"
    by (rule sum_list_le_int, use I in blast)+
  have add: "sum_list (map accepted_translations_count accs)
       + sum_list (map rejected_translations_count accs)
       \<le> sum_list (map submitted_translations_count accs)"
    by (rule sum_list_add_le_int) (use I in blast)
  show ?thesis
    unfolding acc' stats_invariant_def
    using dates nonneg le add
    by (simp add: merge_accumulators_def accs)
qed

text \<open>
  Claim C3. Every aggregate reachable from the fresh accumulator by \<^verbatim>\<open>add_input\<close> and
  \<^verbatim>\<open>merge_accumulators\<close> has non-negative counters, no more accepted translations
  without edits than accepted ones, no more accepted than submitted, no more accepted
  plus rejected than submitted, no more accepted or rejected words than submitted
  words, and no more contribution dates than submitted translations.
\<close>

theorem reachable_invariant: "reachable a \<Longrightarrow> stats_invariant a"
proof (induction rule: reachable.induct)
  case identity
  show ?case by (rule invariant_identity)
next
  case (fold acc k ev strip_html_tags suggestions opp acc')
  show ?case
    using fold.IH generate_stats_word_count [OF fold.hyps(2)] fold.hyps(3)
    by (rule invariant_add_input)
next
  case (merge accs acc')
  then show ?case
    by (blast intro: invariant_merge)
qed

theorem reachable_invariant_witness:
  "reachable
     \<lparr>language_code = None, contributor_user_id = None, topic_id = None,
      submitted_translations_count = 1,
      submitted_translation_word_count = 2,
      accepted_translations_count = 1,
      accepted_translations_without_reviewer_edits_count = 1,
      accepted_translation_word_count = 2,
      rejected_translations_count = 0,
      rejected_translation_word_count = 0,
      contribution_dates = {\<lparr>year = 2024, month = 3, day = 5\<rparr>}\<rparr>
   \<and> stats_invariant
     \<lparr>language_code = None, contributor_user_id = None, topic_id = None,
      submitted_translations_count = 1,
      submitted_translation_word_count = 2,
      accepted_translations_count = 1,
      accepted_translations_without_reviewer_edits_count = 1,
      accepted_translation_word_count = 2,
      rejected_translations_count = 0,
      rejected_translation_word_count = 0,
      contribution_dates = {\<lparr>year = 2024, month = 3, day = 5\<rparr>}\<rparr>"
  (is "reachable ?X \<and> _")
proof -
  let ?ev = "\<lparr>suggestion_status = ''accepted'', edited_by_reviewer = False,
              content_word_count = 2, last_updated_date = ''2024-03-05''\<rparr>"
  let ?s = "\<lparr>suggestion_type = ''translate_content'', target_id = ''exp1'',
       suggestion_language_code = ''es'', author_id = ''u1'', status = ''accepted'',
       suggestion_edited_by_reviewer = False, content_html = ''hi there'',
       last_updated = \<lparr>date_part = \<lparr>year = 2024, month = 3, day = 5\<rparr>, seconds_of_day = 0\<rparr>\<rparr>"
  have g: "generate_stats id [?s] None = [(''es.u1.'', ?ev)]" by code_simp
  then have m: "(''es.u1.'', ?ev) \<in> set (generate_stats id [?s] None)" by simp
  have a: "add_input create_accumulator ?ev = Inr ?X" by code_simp
  have r: "reachable ?X" by (rule reachable.fold [OF reachable.identity m a])
  from reachable_invariant [OF r] r show ?thesis by blast
qed

subsection \<open>Entity ids\<close>

lemma split_on_not_Nil: "split_on sep s \<noteq> []"
  by (induction s) (auto split: list.splits)

lemma length_split_on: "length (split_on sep s) = Suc (count_list s sep)"
  by (induction s) (auto simp: split_on_not_Nil split: list.splits)

lemma length_three: "(length xs = 3) = (\<exists>a b c. xs = [a, b, c])"
  by (auto simp: numeral_3_eq_3 length_Suc_conv)

lemma model_ok_iff:
  "(\<exists>m. generate_translation_contribution_model entity_id translation = Inr m)
     = (count_list entity_id (CHR ''.'') = 2)"
proof -
  have "(\<exists>m. generate_translation_contribution_model entity_id translation = Inr m)
          = (length (split_on (CHR ''.'') entity_id) = 3)"
    unfolding length_three generate_translation_contribution_model_def
    by (auto split: list.splits)
  then show ?thesis by (simp add: length_split_on)
qed

lemma model_error:
  "generate_translation_contribution_model entity_id translation = Inl e \<Longrightarrow> e = ValueError"
  by (auto simp: generate_translation_contribution_model_def split: list.splits)

lemma model_raises:
  assumes "count_list entity_id (CHR ''.'') \<noteq> 2"
  shows "generate_translation_contribution_model entity_id translation = Inl ValueError"
proof (cases "generate_translation_contribution_model entity_id translation")
  case (Inl e)
  then show ?thesis using model_error [OF Inl] by simp
next
  case (Inr m)
  then show ?thesis using model_ok_iff [of entity_id translation] assms by simp
qed

lemma count_list_zero_iff: "(count_list xs x = 0) = (x \<notin> set xs)"
  by (induction xs) auto

lemma count_dots_generate_id:
  "count_list (generate_id l c t) (CHR ''.'')
     = 2 + count_list l (CHR ''.'') + count_list c (CHR ''.'') + count_list t (CHR ''.'')"
  by (simp add: generate_id_def)

lemma split_on_no_sep: "sep \<notin> set s \<Longrightarrow> split_on sep s = [s]"
  by (induction s) auto

lemma split_on_append: "sep \<notin> set s \<Longrightarrow> split_on sep (s @ sep # rest) = s # split_on sep rest"
  by (induction s) (auto simp: split_on_not_Nil split: list.splits)

lemma split_on_generate_id:
  assumes "CHR ''.'' \<notin> set l" "CHR ''.'' \<notin> set c" "CHR ''.'' \<notin> set t"
  shows "split_on (CHR ''.'') (generate_id l c t) = [l, c, t]"
  using assms by (simp add: generate_id_def split_on_append split_on_no_sep)

text \<open>
  Claim C10. \<^verbatim>\<open>_generate_translation_contribution_model\<close> returns a model exactly when
  the entity id has two dots, and raises \<^verbatim>\<open>ValueError\<close> otherwise. A key with an
  empty topic is accepted; a key made from a language code, contributor id or topic id
  that contains a dot is not.
\<close>

theorem model_needs_two_dots:
  "((\<exists>m. generate_translation_contribution_model entity_id translation = Inr m)
      = (count_list entity_id (CHR ''.'') = 2))
   \<and> (count_list entity_id (CHR ''.'') \<noteq> 2 \<longrightarrow>
        generate_translation_contribution_model entity_id translation = Inl ValueError)
   \<and> (CHR ''.'' \<notin> set l \<and> CHR ''.'' \<notin> set c \<longrightarrow>
        (\<exists>m. generate_translation_contribution_model (generate_id l c []) translation = Inr m
             \<and> model_language_code m = l \<and> model_contributor_user_id m = c
             \<and> model_topic_id m = []))
   \<and> (CHR ''.'' \<in> set l \<or> CHR ''.'' \<in> set c \<or> CHR ''.'' \<in> set t \<longrightarrow>
        generate_translation_contribution_model (generate_id l c t) translation = Inl ValueError)"
proof (intro conjI impI)
  show "(\<exists>m. generate_translation_contribution_model entity_id translation = Inr m)
      = (count_list entity_id (CHR ''.'') = 2)"
    by (rule model_ok_iff)
next
  assume "count_list entity_id (CHR ''.'') \<noteq> 2"
  then show "generate_translation_contribution_model entity_id translation = Inl ValueError"
    by (rule model_raises)
next
  assume "CHR ''.'' \<notin> set l \<and> CHR ''.'' \<notin> set c"
  then have "split_on (CHR ''.'') (generate_id l c []) = [l, c, []]"
    by (simp add: split_on_generate_id)
  then show "\<exists>m. generate_translation_contribution_model (generate_id l c []) translation = Inr m
             \<and> model_language_code m = l \<and> model_contributor_user_id m = c
             \<and> model_topic_id m = []"
    by (simp add: generate_translation_contribution_model_def)
next
  assume "CHR ''.'' \<in> set l \<or> CHR ''.'' \<in> set c \<or> CHR ''.'' \<in> set t"
  then have "count_list l (CHR ''.'') \<noteq> 0 \<or> count_list c (CHR ''.'') \<noteq> 0
      \<or> count_list t (CHR ''.'') \<noteq> 0"
    by (simp add: count_list_zero_iff)
  then have "count_list (generate_id l c t) (CHR ''.'') \<noteq> 2"
    unfolding count_dots_generate_id by linarith
  then show "generate_translation_contribution_model (generate_id l c t) translation = Inl ValueError"
    by (rule model_raises)
qed

theorem model_needs_two_dots_witness:
  "(\<exists>m. generate_translation_contribution_model ''es.u1.t1'' create_accumulator = Inr m)
   \<and> count_list ''es.u1'' (CHR ''.'') \<noteq> 2
   \<and> generate_translation_contribution_model ''es.u1'' create_accumulator = Inl ValueError
   \<and> CHR ''.'' \<notin> set ''es'' \<and> CHR ''.'' \<notin> set ''u1''
   \<and> (\<exists>m. generate_translation_contribution_model (generate_id ''es'' ''u1'' []) create_accumulator
            = Inr m
          \<and> model_language_code m = ''es'' \<and> model_contributor_user_id m = ''u1''
          \<and> model_topic_id m = [])
   \<and> CHR ''.'' \<in> set ''t.1''
   \<and> generate_translation_contribution_model (generate_id ''es'' ''u1'' ''t.1'') create_accumulator
       = Inl ValueError"
  using model_needs_two_dots [of "''es.u1.t1''" create_accumulator "''es''" "''u1''" "''t.1''"]
    model_needs_two_dots [of "''es.u1''" create_accumulator "''es''" "''u1''" "''t.1''"]
  by simp

lemma add_inputs_fields:
  assumes "add_inputs acc evs = Inr acc'"
  shows "language_code acc' = language_code acc
    \<and> contributor_user_id acc' = contributor_user_id acc
    \<and> topic_id acc' = topic_id acc"
proof -
  have "acc' = tally acc evs"
    using assms by (simp add: add_inputs_eq split: if_splits)
  then show ?thesis by (simp add: tally_def)
qed

lemma model_of_generated_id:
  assumes "CHR ''.'' \<notin> set l" "CHR ''.'' \<notin> set c" "CHR ''.'' \<notin> set t"
  shows "\<exists>m. generate_translation_contribution_model (generate_id l c t) translation = Inr m
    \<and> model_language_code m = l \<and> model_contributor_user_id m = c \<and> model_topic_id m = t"
  by (simp add: generate_translation_contribution_model_def split_on_generate_id [OF assms])

text \<open>
  Claim C8, amended. The fresh accumulator has all counts 0, no date and the three
  identifying fields unset. \<^verbatim>\<open>add_input\<close> copies these three fields from the
  accumulator, so after any fold they are what they were before it. The components of
  the key reach the stored model in \<^verbatim>\<open>_generate_translation_contribution_model\<close>,
  which splits the entity id.
\<close>

theorem identity_zero_fields_kept:
  "create_accumulator =
     \<lparr>language_code = None, contributor_user_id = None, topic_id = None,
      submitted_translations_count = 0,
      submitted_translation_word_count = 0,
      accepted_translations_count = 0,
      accepted_translations_without_reviewer_edits_count = 0,
      accepted_translation_word_count = 0,
      rejected_translations_count = 0,
      rejected_translation_word_count = 0,
      contribution_dates = {}\<rparr>
   \<and> (add_inputs acc evs = Inr acc' \<longrightarrow>
        language_code acc' = language_code acc
        \<and> contributor_user_id acc' = contributor_user_id acc
        \<and> topic_id acc' = topic_id acc)
   \<and> (CHR ''.'' \<notin> set l \<and> CHR ''.'' \<notin> set c \<and> CHR ''.'' \<notin> set t \<longrightarrow>
        (\<exists>m. generate_translation_contribution_model (generate_id l c t) translation = Inr m
           \<and> model_language_code m = l \<and> model_contributor_user_id m = c
           \<and> model_topic_id m = t))"
proof (intro conjI impI)
  show "create_accumulator =
     \<lparr>language_code = None, contributor_user_id = None, topic_id = None,
      submitted_translations_count = 0,
      submitted_translation_word_count = 0,
      accepted_translations_count = 0,
      accepted_translations_without_reviewer_edits_count = 0,
      accepted_translation_word_count = 0,
      rejected_translations_count = 0,
      rejected_translation_word_count = 0,
      contribution_dates = {}\<rparr>"
    by (simp add: create_accumulator_def create_default_def)
next
  assume a: "add_inputs acc evs = Inr acc'"
  show "language_code acc' = language_code acc" using add_inputs_fields [OF a] by simp
  show "contributor_user_id acc' = contributor_user_id acc" using add_inputs_fields [OF a] by simp
  show "topic_id acc' = topic_id acc" using add_inputs_fields [OF a] by simp
next
  assume "CHR ''.'' \<notin> set l \<and> CHR ''.'' \<notin> set c \<and> CHR ''.'' \<notin> set t"
  then show "\<exists>m. generate_translation_contribution_model (generate_id l c t) translation = Inr m
           \<and> model_language_code m = l \<and> model_contributor_user_id m = c
           \<and> model_topic_id m = t"
    by (simp add: model_of_generated_id)
qed

theorem identity_zero_fields_kept_witness:
  "add_inputs create_accumulator
     [\<lparr>suggestion_status = ''accepted'', edited_by_reviewer = False,
        content_word_count = 2, last_updated_date = ''2024-03-05''\<rparr>]
     = Inr \<lparr>language_code = None, contributor_user_id = None, topic_id = None,
        submitted_translations_count = 1,
        submitted_translation_word_count = 2,
        accepted_translations_count = 1,
        accepted_translations_without_reviewer_edits_count = 1,
        accepted_translation_word_count = 2,
        rejected_translations_count = 0,
        rejected_translation_word_count = 0,
        contribution_dates = {\<lparr>year = 2024, month = 3, day = 5\<rparr>}\<rparr>
   \<and> language_code
       \<lparr>language_code = None, contributor_user_id = None, topic_id = None,
        submitted_translations_count = 1,
        submitted_translation_word_count = 2,
        accepted_translations_count = 1,
        accepted_translations_without_reviewer_edits_count = 1,
        accepted_translation_word_count = 2,
        rejected_translations_count = 0,
        rejected_translation_word_count = 0,
        contribution_dates = {\<lparr>year = 2024, month = 3, day = 5\<rparr>}\<rparr> = None
   \<and> CHR ''.'' \<notin> set ''es'' \<and> CHR ''.'' \<notin> set ''u1'' \<and> CHR ''.'' \<notin> set ''t1''
   \<and> (\<exists>m. generate_translation_contribution_model (generate_id ''es'' ''u1'' ''t1'')
            \<lparr>language_code = None, contributor_user_id = None, topic_id = None,
        submitted_translations_count = 1,
        submitted_translation_word_count = 2,
        accepted_translations_count = 1,
        accepted_translations_without_reviewer_edits_count = 1,
        accepted_translation_word_count = 2,
        rejected_translations_count = 0,
        rejected_translation_word_count = 0,
        contribution_dates = {\<lparr>year = 2024, month = 3, day = 5\<rparr>}\<rparr> = Inr m
          \<and> model_language_code m = ''es'' \<and> model_contributor_user_id m = ''u1''
          \<and> model_topic_id m = ''t1'')"
proof -
  let ?x = "\<lparr>language_code = None, contributor_user_id = None, topic_id = None,
        submitted_translations_count = 1,
        submitted_translation_word_count = 2,
        accepted_translations_count = 1,
        accepted_translations_without_reviewer_edits_count = 1,
        accepted_translation_word_count = 2,
        rejected_translations_count = 0,
        rejected_translation_word_count = 0,
        contribution_dates = {\<lparr>year = 2024, month = 3, day = 5\<rparr>}\<rparr>"
  have h: "add_inputs create_accumulator
     [\<lparr>suggestion_status = ''accepted'', edited_by_reviewer = False,
        content_word_count = 2, last_updated_date = ''2024-03-05''\<rparr>] = Inr ?x"
    by code_simp
  have d: "CHR ''.'' \<notin> set ''es'' \<and> CHR ''.'' \<notin> set ''u1'' \<and> CHR ''.'' \<notin> set ''t1''"
    by simp
  note T = identity_zero_fields_kept
    [of create_accumulator "[\<lparr>suggestion_status = ''accepted'', edited_by_reviewer = False,
        content_word_count = 2, last_updated_date = ''2024-03-05''\<rparr>]" ?x
        "''es''" "''u1''" "''t1''" ?x]
  from T have f: "add_inputs create_accumulator
     [\<lparr>suggestion_status = ''accepted'', edited_by_reviewer = False,
        content_word_count = 2, last_updated_date = ''2024-03-05''\<rparr>] = Inr ?x \<longrightarrow>
        language_code ?x = language_code create_accumulator
        \<and> contributor_user_id ?x = contributor_user_id create_accumulator
        \<and> topic_id ?x = topic_id create_accumulator"
    by (rule conjunct1 [OF conjunct2])
  from T have g: "CHR ''.'' \<notin> set ''es'' \<and> CHR ''.'' \<notin> set ''u1'' \<and> CHR ''.'' \<notin> set ''t1'' \<longrightarrow>
      (\<exists>m. generate_translation_contribution_model (generate_id ''es'' ''u1'' ''t1'') ?x = Inr m
          \<and> model_language_code m = ''es'' \<and> model_contributor_user_id m = ''u1''
          \<and> model_topic_id m = ''t1'')"
    by (rule conjunct2 [OF conjunct2])
  have n: "language_code ?x = None" by simp
  from g d
  have "\<exists>m. generate_translation_contribution_model (generate_id ''es'' ''u1'' ''t1'') ?x = Inr m
          \<and> model_language_code m = ''es'' \<and> model_contributor_user_id m = ''u1''
          \<and> model_topic_id m = ''t1''"
    by (rule mp)
  with h n d show ?thesis by blast
qed

text \<open>
  Claim C8 as stated fails: the aggregate combined for the key \<^verbatim>\<open>es.u1.t1\<close> has no
  language code, contributor or topic.
\<close>

theorem language_code_never_set:
  "combine_per_key
     [(''es.u1.t1'', \<lparr>suggestion_status = ''accepted'', edited_by_reviewer = False,
        content_word_count = 2, last_updated_date = ''2024-03-05''\<rparr>)]
   = Inr [(''es.u1.t1'',
       \<lparr>language_code = None, contributor_user_id = None, topic_id = None,
        submitted_translations_count = 1,
        submitted_translation_word_count = 2,
        accepted_translations_count = 1,
        accepted_translations_without_reviewer_edits_count = 1,
        accepted_translation_word_count = 2,
        rejected_translations_count = 0,
        rejected_translation_word_count = 0,
        contribution_dates = {\<lparr>year = 2024, month = 3, day = 5\<rparr>}\<rparr>)]"
  by code_simp

subsection \<open>The join and the run\<close>

lemma distinct_first_occurrences: "distinct (first_occurrences xs)"
  by (simp add: first_occurrences_def)

lemma set_first_occurrences: "set (first_occurrences xs) = set xs"
  by (simp add: first_occurrences_def)

lemma filter_fst_keyed:
  "distinct ks \<Longrightarrow>
   filter (\<lambda>p. fst p = k) (map (\<lambda>k'. (k', g k')) ks) = (if k \<in> set ks then [(k, g k)] else [])"
  by (induction ks) auto

lemma values_of_group_by:
  "map snd (filter (\<lambda>p. fst p = k) (group_by f xs))
     = (if k \<in> f ` set xs then [filter (\<lambda>x. f x = k) xs] else [])"
  unfolding group_by_def
  by (simp add: filter_fst_keyed distinct_first_occurrences set_first_occurrences)

lemma keys_of_group_by: "map fst (group_by f xs) = first_occurrences (map f xs)"
  by (simp add: group_by_def comp_def)

lemma filter_empty_outside: "k \<notin> f ` set xs \<Longrightarrow> filter (\<lambda>x. f x = k) xs = []"
  by (induction xs) auto

lemma case_filter_find:
  "(case filter P xs of [] \<Rightarrow> a | x # _ \<Rightarrow> b x) = (case find P xs of None \<Rightarrow> a | Some x \<Rightarrow> b x)"
  by (induction xs) auto

lemma find_None_outside: "k \<notin> f ` set xs \<Longrightarrow> find (\<lambda>x. f x = k) xs = None"
  by (induction xs) auto

lemma generate_stats_keyed:
  "generate_stats strip_html_tags suggestions opp
     = map (keyed_event strip_html_tags
              (case opp of None \<Rightarrow> [] | Some opportunity \<Rightarrow> opportunity_topic_id opportunity))
         suggestions"
  by (simp add: generate_stats_def keyed_event_def Let_def)

lemma find_filter_Cons: "filter P xs = x # rest \<Longrightarrow> find P xs = Some x"
  by (induction xs) (auto split: if_splits)

lemma find_filter_Nil: "filter P xs = [] \<Longrightarrow> find P xs = None"
  by (induction xs) (auto split: if_splits)

lemma generate_stats_step_joined:
  "generate_stats_step strip_html_tags
     \<lparr>tagged_suggestion = map snd (filter (\<lambda>p. fst p = k) (group_by target_id xs)),
      tagged_opportunity = map snd (filter (\<lambda>p. fst p = k) (group_by opportunity_id os))\<rparr>
   = Inr (generate_stats strip_html_tags (filter (\<lambda>s. target_id s = k) xs)
            (find (\<lambda>m. opportunity_id m = k) os))"
proof (cases "filter (\<lambda>m. opportunity_id m = k) os")
  case Nil
  then have "k \<notin> opportunity_id ` set os"
    by (auto simp: filter_empty_conv)
  then show ?thesis
    using find_filter_Nil [OF Nil]
    by (simp add: generate_stats_step_def values_of_group_by filter_empty_outside)
next
  case (Cons opp rest)
  then have "opp \<in> set (filter (\<lambda>m. opportunity_id m = k) os)" by simp
  then have "k \<in> opportunity_id ` set os" by auto
  then show ?thesis
    using find_filter_Cons [OF Cons] Cons
    by (simp add: generate_stats_step_def values_of_group_by filter_empty_outside)
qed

lemma first_error_Inr: "first_error (map (\<lambda>x. Inr (g x)) xs) = Inr (map g xs)"
  by (induction xs) auto

lemma generated_stats_joined:
  "generated_stats strip_html_tags suggestion_models opportunity_models
     = Inr (concat (map (\<lambda>k. generate_stats strip_html_tags
                                (filter (\<lambda>s. target_id s = k) (translate_suggestions suggestion_models))
                                (find (\<lambda>m. opportunity_id m = k) opportunity_models))
                      (join_keys suggestion_models opportunity_models)))"
  unfolding generated_stats_def Let_def co_group_by_key_def
  by (simp add: comp_def generate_stats_step_joined first_error_Inr keys_of_group_by
        join_keys_def translate_suggestions_def)

lemma filter_mset_disjoint_or:
  assumes "\<And>x. \<not> (P x \<and> Q x)"
  shows "filter_mset (\<lambda>x. P x \<or> Q x) M = filter_mset P M + filter_mset Q M"
  using assms by (induction M) auto

lemma image_filter_key:
  "image_mset (\<lambda>x. h (f x) x) (filter_mset (\<lambda>x. f x = k) M)
     = image_mset (h k) (filter_mset (\<lambda>x. f x = k) M)"
  by (rule image_mset_cong) simp

lemma grouping_partition:
  "distinct ks \<Longrightarrow>
   mset (concat (map (\<lambda>k. map (h k) (filter (\<lambda>x. f x = k) xs)) ks))
     = image_mset (\<lambda>x. h (f x) x) (filter_mset (\<lambda>x. f x \<in> set ks) (mset xs))"
proof (induction ks)
  case Nil
  show ?case by simp
next
  case (Cons k ks)
  have disj: "\<And>x. \<not> (f x = k \<and> f x \<in> set ks)" using Cons.prems by auto
  have "filter_mset (\<lambda>x. f x \<in> set (k # ks)) (mset xs)
          = filter_mset (\<lambda>x. f x = k \<or> f x \<in> set ks) (mset xs)"
    by (rule filter_mset_cong) auto
  also have "\<dots> = filter_mset (\<lambda>x. f x = k) (mset xs) + filter_mset (\<lambda>x. f x \<in> set ks) (mset xs)"
    by (rule filter_mset_disjoint_or) (rule disj)
  finally have split: "filter_mset (\<lambda>x. f x \<in> set (k # ks)) (mset xs)
      = filter_mset (\<lambda>x. f x = k) (mset xs) + filter_mset (\<lambda>x. f x \<in> set ks) (mset xs)" .
  from Cons have IH: "mset (concat (map (\<lambda>k. map (h k) (filter (\<lambda>x. f x = k) xs)) ks))
     = image_mset (\<lambda>x. h (f x) x) (filter_mset (\<lambda>x. f x \<in> set ks) (mset xs))"
    by simp
  show ?case
    unfolding split by (simp add: IH image_filter_key)
qed

lemma set_join_keys:
  "set (join_keys suggestion_models opportunity_models)
     = target_id ` set (translate_suggestions suggestion_models)
       \<union> opportunity_id ` set opportunity_models"
  by (simp add: join_keys_def set_first_occurrences)

lemma topic_of_find:
  "(case find (\<lambda>m. opportunity_id m = k) opportunity_models of
      None \<Rightarrow> [] | Some opportunity \<Rightarrow> opportunity_topic_id opportunity)
     = joined_topic_id opportunity_models k"
  by (simp add: joined_topic_id_def)

lemma mset_generated_stats:
  "\<exists>keyed. generated_stats strip_html_tags suggestion_models opportunity_models = Inr keyed
     \<and> mset keyed =
         image_mset (\<lambda>s. keyed_event strip_html_tags
                           (joined_topic_id opportunity_models (target_id s)) s)
           (mset (translate_suggestions suggestion_models))"
proof -
  let ?S = "translate_suggestions suggestion_models"
  let ?ks = "join_keys suggestion_models opportunity_models"
  let ?h = "\<lambda>k. keyed_event strip_html_tags (joined_topic_id opportunity_models k)"
  have all: "filter_mset (\<lambda>s. target_id s \<in> set ?ks) (mset ?S) = mset ?S"
    by (rule filter_mset_eq_conv [THEN iffD2]) (auto simp: set_join_keys)
  have "distinct ?ks" by (simp add: join_keys_def distinct_first_occurrences)
  then have "mset (concat (map (\<lambda>k. map (?h k) (filter (\<lambda>s. target_id s = k) ?S)) ?ks))
      = image_mset (\<lambda>s. ?h (target_id s) s) (filter_mset (\<lambda>s. target_id s \<in> set ?ks) (mset ?S))"
    by (rule grouping_partition)
  then show ?thesis
    by (simp add: generated_stats_joined generate_stats_keyed topic_of_find all)
qed

lemma joined_topic_id_unmatched:
  "target \<notin> opportunity_id ` set opportunity_models
     \<Longrightarrow> joined_topic_id opportunity_models target = []"
  by (simp add: joined_topic_id_def find_None_outside)

text \<open>
  Claim C4. Without an opportunity, \<^verbatim>\<open>_generate_stats\<close> yields one pair for each
  suggestion, with the empty topic. In the pipeline, the keyed events are, as a
  multiset, one pair for each suggestion of the translation type, keyed with the topic
  that its target id is joined with; for a target id that is the id of no opportunity
  that topic is the empty string and the key is \<^verbatim>\<open>language.contributor.\<close>; the step
  raises nothing.
\<close>

theorem unmatched_proposal_counted:
  "generate_stats strip_html_tags suggestions None
     = map (keyed_event strip_html_tags []) suggestions
   \<and> (\<exists>keyed. generated_stats strip_html_tags suggestion_models opportunity_models = Inr keyed
        \<and> mset keyed =
            image_mset (\<lambda>s. keyed_event strip_html_tags
                              (joined_topic_id opportunity_models (target_id s)) s)
              (mset (translate_suggestions suggestion_models)))
   \<and> (\<forall>s. target_id s \<notin> opportunity_id ` set opportunity_models \<longrightarrow>
          joined_topic_id opportunity_models (target_id s) = []
          \<and> fst (keyed_event strip_html_tags [] s)
              = suggestion_language_code s @ ''.'' @ author_id s @ ''.'')"
proof (intro conjI allI impI)
  show "generate_stats strip_html_tags suggestions None
          = map (keyed_event strip_html_tags []) suggestions"
    by (simp add: generate_stats_keyed)
next
  show "\<exists>keyed. generated_stats strip_html_tags suggestion_models opportunity_models = Inr keyed
        \<and> mset keyed =
            image_mset (\<lambda>s. keyed_event strip_html_tags
                              (joined_topic_id opportunity_models (target_id s)) s)
              (mset (translate_suggestions suggestion_models))"
    by (rule mset_generated_stats)
next
  fix s
  assume "target_id s \<notin> opportunity_id ` set opportunity_models"
  then show "joined_topic_id opportunity_models (target_id s) = []"
    by (rule joined_topic_id_unmatched)
next
  fix s
  show "fst (keyed_event strip_html_tags [] s)
          = suggestion_language_code s @ ''.'' @ author_id s @ ''.''"
    by (simp add: keyed_event_def generate_id_def)
qed

theorem unmatched_proposal_counted_witness:
  "target_id
     \<lparr>suggestion_type = ''translate_content'', target_id = ''exp1'',
       suggestion_language_code = ''es'', author_id = ''u1'', status = ''accepted'',
       suggestion_edited_by_reviewer = False, content_html = ''hi there'',
       last_updated = \<lparr>date_part = \<lparr>year = 2024, month = 3, day = 5\<rparr>, seconds_of_day = 0\<rparr>\<rparr>
     \<notin> opportunity_id ` set [\<lparr>opportunity_id = ''exp2'', opportunity_topic_id = ''t2''\<rparr>]
   \<and> (\<exists>keyed. generated_stats id
          [\<lparr>suggestion_type = ''translate_content'', target_id = ''exp1'',
       suggestion_language_code = ''es'', author_id = ''u1'', status = ''accepted'',
       suggestion_edited_by_reviewer = False, content_html = ''hi there'',
       last_updated = \<lparr>date_part = \<lparr>year = 2024, month = 3, day = 5\<rparr>, seconds_of_day = 0\<rparr>\<rparr>]
          [\<lparr>opportunity_id = ''exp2'', opportunity_topic_id = ''t2''\<rparr>] = Inr keyed
        \<and> mset keyed = {#(''es.u1.'',
            \<lparr>suggestion_status = ''accepted'', edited_by_reviewer = False,
        content_word_count = 2, last_updated_date = ''2024-03-05''\<rparr>)#})"
  (is "?H \<and> ?C")
proof -
  let ?s = "\<lparr>suggestion_type = ''translate_content'', target_id = ''exp1'',
       suggestion_language_code = ''es'', author_id = ''u1'', status = ''accepted'',
       suggestion_edited_by_reviewer = False, content_html = ''hi there'',
       last_updated = \<lparr>date_part = \<lparr>year = 2024, month = 3, day = 5\<rparr>, seconds_of_day = 0\<rparr>\<rparr>"
  let ?os = "[\<lparr>opportunity_id = ''exp2'', opportunity_topic_id = ''t2''\<rparr>]"
  have h: ?H by simp
  have t: "translate_suggestions [?s] = [?s]" by code_simp
  have k: "keyed_event id [] ?s = (''es.u1.'', \<lparr>suggestion_status = ''accepted'', edited_by_reviewer = False,
        content_word_count = 2, last_updated_date = ''2024-03-05''\<rparr>)"
    by code_simp
  from unmatched_proposal_counted [of id "[]" "[?s]" ?os]
  obtain keyed where 1: "generated_stats id [?s] ?os = Inr keyed"
    and 2: "mset keyed = image_mset (\<lambda>s. keyed_event id (joined_topic_id ?os (target_id s)) s)
              (mset (translate_suggestions [?s]))"
    and 3: "\<forall>s. target_id s \<notin> opportunity_id ` set ?os \<longrightarrow> joined_topic_id ?os (target_id s) = []
              \<and> fst (keyed_event id [] s) = suggestion_language_code s @ ''.'' @ author_id s @ ''.''"
    by blast
  from 3 h have j: "joined_topic_id ?os (target_id ?s) = []" by blast
  from 2 have "mset keyed = {#keyed_event id (joined_topic_id ?os (target_id ?s)) ?s#}"
    unfolding t by simp
  then have "mset keyed = {#(''es.u1.'', \<lparr>suggestion_status = ''accepted'', edited_by_reviewer = False,
        content_word_count = 2, last_updated_date = ''2024-03-05''\<rparr>)#}"
    by (simp only: j k)
  with 1 h show ?thesis by blast
qed

lemma joined_topic_id_matched:
  assumes "t \<in> opportunity_id ` set opportunity_models"
  shows "\<exists>opp \<in> set opportunity_models.
           opportunity_id opp = t
           \<and> joined_topic_id opportunity_models t = opportunity_topic_id opp"
proof -
  from assms obtain opp where f: "find (\<lambda>m. opportunity_id m = t) opportunity_models = Some opp"
    by (cases "find (\<lambda>m. opportunity_id m = t) opportunity_models") (auto simp: find_None_iff)
  then have "opp \<in> set opportunity_models" and "opportunity_id opp = t"
    by (auto simp: find_Some_iff)
  moreover have "joined_topic_id opportunity_models t = opportunity_topic_id opp"
    using f by (simp add: joined_topic_id_def)
  ultimately show ?thesis by blast
qed

text \<open>
  Claim C6, amended. Opportunities that share an id raise nothing: the join step ends
  without exception and every suggestion of the translation type yields its one event,
  keyed with the topic of one of the opportunities whose id is its target id, or with
  the empty topic when there is none. Which of several opportunities of one id is used
  is the first of the group as the runner presents it; the statement fixes no order.
\<close>

theorem duplicate_opportunities_one_used:
  "\<exists>keyed topic_of.
     generated_stats strip_html_tags suggestion_models opportunity_models = Inr keyed
     \<and> mset keyed =
         image_mset (\<lambda>s. keyed_event strip_html_tags (topic_of (target_id s)) s)
           (mset (translate_suggestions suggestion_models))
     \<and> (\<forall>t. (t \<in> opportunity_id ` set opportunity_models \<longrightarrow>
                (\<exists>opp \<in> set opportunity_models.
                   opportunity_id opp = t \<and> topic_of t = opportunity_topic_id opp))
            \<and> (t \<notin> opportunity_id ` set opportunity_models \<longrightarrow> topic_of t = []))"
proof -
  from mset_generated_stats [of strip_html_tags suggestion_models opportunity_models]
  obtain keyed where 1: "generated_stats strip_html_tags suggestion_models opportunity_models = Inr keyed"
    and 2: "mset keyed =
         image_mset (\<lambda>s. keyed_event strip_html_tags
                           (joined_topic_id opportunity_models (target_id s)) s)
           (mset (translate_suggestions suggestion_models))"
    by blast
  have 3: "\<forall>t. (t \<in> opportunity_id ` set opportunity_models \<longrightarrow>
                (\<exists>opp \<in> set opportunity_models.
                   opportunity_id opp = t
                   \<and> joined_topic_id opportunity_models t = opportunity_topic_id opp))
            \<and> (t \<notin> opportunity_id ` set opportunity_models \<longrightarrow>
                 joined_topic_id opportunity_models t = [])"
    by (blast intro: joined_topic_id_matched joined_topic_id_unmatched)
  from 1 2 3 show ?thesis by blast
qed

theorem duplicate_opportunities_one_used_witness:
  "''exp1'' \<in> opportunity_id ` set [\<lparr>opportunity_id = ''exp1'', opportunity_topic_id = ''t1''\<rparr>,
        \<lparr>opportunity_id = ''exp1'', opportunity_topic_id = ''t2''\<rparr>]
   \<and> (\<exists>keyed. generated_stats id
          [\<lparr>suggestion_type = ''translate_content'', target_id = ''exp1'',
       suggestion_language_code = ''es'', author_id = ''u1'', status = ''accepted'',
       suggestion_edited_by_reviewer = False, content_html = ''hi there'',
       last_updated = \<lparr>date_part = \<lparr>year = 2024, month = 3, day = 5\<rparr>, seconds_of_day = 0\<rparr>\<rparr>]
          [\<lparr>opportunity_id = ''exp1'', opportunity_topic_id = ''t1''\<rparr>,
           \<lparr>opportunity_id = ''exp1'', opportunity_topic_id = ''t2''\<rparr>] = Inr keyed
        \<and> (mset keyed = {#(''es.u1.t1'', \<lparr>suggestion_status = ''accepted'', edited_by_reviewer = False,
        content_word_count = 2, last_updated_date = ''2024-03-05''\<rparr>)#}
           \<or> mset keyed = {#(''es.u1.t2'', \<lparr>suggestion_status = ''accepted'', edited_by_reviewer = False,
        content_word_count = 2, last_updated_date = ''2024-03-05''\<rparr>)#}))"
  (is "?H \<and> ?C")
proof -
  let ?s = "\<lparr>suggestion_type = ''translate_content'', target_id = ''exp1'',
       suggestion_language_code = ''es'', author_id = ''u1'', status = ''accepted'',
       suggestion_edited_by_reviewer = False, content_html = ''hi there'',
       last_updated = \<lparr>date_part = \<lparr>year = 2024, month = 3, day = 5\<rparr>, seconds_of_day = 0\<rparr>\<rparr>"
  let ?os = "[\<lparr>opportunity_id = ''exp1'', opportunity_topic_id = ''t1''\<rparr>,
        \<lparr>opportunity_id = ''exp1'', opportunity_topic_id = ''t2''\<rparr>]"
  let ?ev = "\<lparr>suggestion_status = ''accepted'', edited_by_reviewer = False,
        content_word_count = 2, last_updated_date = ''2024-03-05''\<rparr>"
  have h: ?H by simp
  have t: "translate_suggestions [?s] = [?s]" by code_simp
  have k1: "keyed_event id ''t1'' ?s = (''es.u1.t1'', ?ev)" by code_simp
  have k2: "keyed_event id ''t2'' ?s = (''es.u1.t2'', ?ev)" by code_simp
  have tg: "target_id ?s = ''exp1''" by simp
  from duplicate_opportunities_one_used [of id "[?s]" ?os]
  obtain keyed topic_of where 1: "generated_stats id [?s] ?os = Inr keyed"
    and 2: "mset keyed = image_mset (\<lambda>s. keyed_event id (topic_of (target_id s)) s)
              (mset (translate_suggestions [?s]))"
    and 3: "\<forall>t. (t \<in> opportunity_id ` set ?os \<longrightarrow>
                (\<exists>opp \<in> set ?os. opportunity_id opp = t \<and> topic_of t = opportunity_topic_id opp))
            \<and> (t \<notin> opportunity_id ` set ?os \<longrightarrow> topic_of t = [])"
    by blast
  from 3 h obtain opp where o: "opp \<in> set ?os" and tp: "topic_of ''exp1'' = opportunity_topic_id opp"
    by blast
  from o have "opportunity_topic_id opp = ''t1'' \<or> opportunity_topic_id opp = ''t2''" by auto
  with tp have d: "topic_of ''exp1'' = ''t1'' \<or> topic_of ''exp1'' = ''t2''" by simp
  from 2 have m: "mset keyed = {#keyed_event id (topic_of ''exp1'') ?s#}"
    unfolding t by (simp add: tg)
  from d have "mset keyed = {#(''es.u1.t1'', ?ev)#} \<or> mset keyed = {#(''es.u1.t2'', ?ev)#}"
  proof
    assume "topic_of ''exp1'' = ''t1''"
    with m have "mset keyed = {#keyed_event id ''t1'' ?s#}" by (simp only:)
    then have "mset keyed = {#(''es.u1.t1'', ?ev)#}" by (simp only: k1)
    then show ?thesis by (rule disjI1)
  next
    assume "topic_of ''exp1'' = ''t2''"
    with m have "mset keyed = {#keyed_event id ''t2'' ?s#}" by (simp only:)
    then have "mset keyed = {#(''es.u1.t2'', ?ev)#}" by (simp only: k2)
    then show ?thesis by (rule disjI2)
  qed
  with 1 h show ?thesis by blast
qed

text \<open>
  Claim C6 as stated fails: with two opportunities of the id \<^verbatim>\<open>exp1\<close>, in either
  order, the run ends without exception, writes a model with the topic of one of them
  and reports \<^verbatim>\<open>SUCCESS 1\<close>.
\<close>

theorem duplicate_opportunities_run_succeeds:
  "run id
     [\<lparr>suggestion_type = ''translate_content'', target_id = ''exp1'',
       suggestion_language_code = ''es'', author_id = ''u1'', status = ''accepted'',
       suggestion_edited_by_reviewer = False, content_html = ''hi there'',
       last_updated = \<lparr>date_part = \<lparr>year = 2024, month = 3, day = 5\<rparr>, seconds_of_day = 0\<rparr>\<rparr>]
     [\<lparr>opportunity_id = ''exp1'', opportunity_topic_id = ''t1''\<rparr>,
      \<lparr>opportunity_id = ''exp1'', opportunity_topic_id = ''t2''\<rparr>]
   = Inr ([\<lparr>model_id = ''es.u1.t1'', model_language_code = ''es'',
          model_contributor_user_id = ''u1'', model_topic_id = ''t1'',
          model_submitted_translations_count = 1,
          model_submitted_translation_word_count = 2,
          model_accepted_translations_count = 1,
          model_accepted_translations_without_reviewer_edits_count = 1,
          model_accepted_translation_word_count = 2,
          model_rejected_translations_count = 0,
          model_rejected_translation_word_count = 0,
          model_contribution_dates = {\<lparr>year = 2024, month = 3, day = 5\<rparr>}\<rparr>],
      [JobRunResult ''SUCCESS 1''])
   \<and> run id
     [\<lparr>suggestion_type = ''translate_content'', target_id = ''exp1'',
       suggestion_language_code = ''es'', author_id = ''u1'', status = ''accepted'',
       suggestion_edited_by_reviewer = False, content_html = ''hi there'',
       last_updated = \<lparr>date_part = \<lparr>year = 2024, month = 3, day = 5\<rparr>, seconds_of_day = 0\<rparr>\<rparr>]
     [\<lparr>opportunity_id = ''exp1'', opportunity_topic_id = ''t2''\<rparr>,
      \<lparr>opportunity_id = ''exp1'', opportunity_topic_id = ''t1''\<rparr>]
   = Inr ([\<lparr>model_id = ''es.u1.t2'', model_language_code = ''es'',
          model_contributor_user_id = ''u1'', model_topic_id = ''t2'',
          model_submitted_translations_count = 1,
          model_submitted_translation_word_count = 2,
          model_accepted_translations_count = 1,
          model_accepted_translations_without_reviewer_edits_count = 1,
          model_accepted_translation_word_count = 2,
          model_rejected_translations_count = 0,
          model_rejected_translation_word_count = 0,
          model_contribution_dates = {\<lparr>year = 2024, month = 3, day = 5\<rparr>}\<rparr>],
      [JobRunResult ''SUCCESS 1''])"
  by code_simp

text \<open>
  Claim C5, amended. A run that ends without exception returns one result
  \<^verbatim>\<open>SUCCESS n\<close> when it produced \<open>n > 0\<close> models, and no result at all when it
  produced none: the step \<^verbatim>\<open>Only create result for new models when > 0\<close> filters the
  count, and the count of an empty collection has no default.
\<close>

theorem run_summary:
  assumes "run strip_html_tags suggestion_models opportunity_models = Inr (models, results)"
  shows "results = (if models = [] then []
                    else [JobRunResult (''SUCCESS '' @ str_nat (length models))])"
  using assms
  by (auto simp: run_def count_globally_without_defaults_def split: sum.splits)

theorem run_summary_witness:
  "run id
     [\<lparr>suggestion_type = ''translate_content'', target_id = ''exp1'',
       suggestion_language_code = ''es'', author_id = ''u1'', status = ''accepted'',
       suggestion_edited_by_reviewer = False, content_html = ''hi there'',
       last_updated = \<lparr>date_part = \<lparr>year = 2024, month = 3, day = 5\<rparr>, seconds_of_day = 0\<rparr>\<rparr>]
     [\<lparr>opportunity_id = ''exp1'', opportunity_topic_id = ''t1''\<rparr>]
   = Inr ([\<lparr>model_id = ''es.u1.t1'', model_language_code = ''es'',
          model_contributor_user_id = ''u1'', model_topic_id = ''t1'',
          model_submitted_translations_count = 1,
          model_submitted_translation_word_count = 2,
          model_accepted_translations_count = 1,
          model_accepted_translations_without_reviewer_edits_count = 1,
          model_accepted_translation_word_count = 2,
          model_rejected_translations_count = 0,
          model_rejected_translation_word_count = 0,
          model_contribution_dates = {\<lparr>year = 2024, month = 3, day = 5\<rparr>}\<rparr>],
      [JobRunResult ''SUCCESS 1''])
   \<and> [JobRunResult ''SUCCESS 1''] = [JobRunResult (''SUCCESS '' @ str_nat (Suc 0))]"
  (is "?H \<and> ?C")
proof -
  have h: ?H by code_simp
  from run_summary [OF h] have c: ?C by simp
  from h c show ?thesis by blast
qed

text \<open>
  Claim C5 as stated fails: with no suggestion and no opportunity the run produces no
  model and returns no result, so no count of 0 is reported.
\<close>

theorem no_summary_for_zero_records: "run id [] [] = Inr ([], [])"
  by code_simp

end
